theory Spec2Isabelle
  imports Complex_Main "HOL-Library.Sublist"
begin

section \<open>Python values\<close>

text \<open>
  A Python \<open>str\<close> is a sequence of Unicode code points, so it is modelled as a list of
  natural numbers. The district names and the assistant's messages contain code points
  above 255. \<open>py\<close> turns an ASCII literal into such a string.
\<close>

type_synonym pystr = "nat list"

definition py :: "string \<Rightarrow> pystr" where
  "py s = map of_char s"

text \<open>
  \<open>exn\<close> stands for the instances of Python's \<open>Exception\<close> class, the ones that both
  \<open>except Exception\<close> and a bare \<open>except:\<close> catch. A Python call that may raise returns
  \<open>exn + 'a\<close>, with \<open>Inl\<close> for the exception.
\<close>

datatype exn = KeyError | TypeError | ValueError | IndexError | OverflowError | OtherError

definition bindE :: "exn + 'a \<Rightarrow> ('a \<Rightarrow> exn + 'b) \<Rightarrow> exn + 'b" where
  "bindE m f = (case m of Inl e \<Rightarrow> Inl e | Inr v \<Rightarrow> f v)"

text \<open>\<open>try: body  except: return fallback\<close>, where the body ends in a \<open>return\<close>.\<close>

definition try_except :: "exn + 'a \<Rightarrow> 'a \<Rightarrow> exn + 'a" where
  "try_except body fallback = (case body of Inl e \<Rightarrow> Inr fallback | Inr v \<Rightarrow> Inr v)"

text \<open>\<open>s.replace(a, b)\<close> for one-character strings \<open>a\<close> and \<open>b\<close>.\<close>

definition replace_char :: "nat \<Rightarrow> nat \<Rightarrow> pystr \<Rightarrow> pystr" where
  "replace_char a b s = map (\<lambda>c. if c = a then b else c) s"

text \<open>The code points for which \<open>str.isspace\<close> holds; \<open>str.strip()\<close> removes them at both ends.\<close>

definition isspace :: "nat \<Rightarrow> bool" where
  "isspace c \<longleftrightarrow>
     c \<in> set ([9, 10, 11, 12, 13, 28, 29, 30, 31, 32, 133, 160, 5760] @ [8192 ..< 8203] @
              [8232, 8233, 8239, 8287, 12288])"

definition strip :: "pystr \<Rightarrow> pystr" where
  "strip s = rev (dropWhile isspace (rev (dropWhile isspace s)))"

section \<open>The spreadsheet loader\<close>

subsection \<open>Data frames\<close>

text \<open>
  A cell of the sheet is a number, a text or blank (pandas' NaN). Numbers are reals:
  rounding and the infinities of floating point are not modelled, nor are Boolean and date
  cells. A frame has its column labels in order (pandas allows equal labels) and its rows
  in index order, each with one cell per column.
\<close>

datatype cell = Num real | Text pystr | Blank

record frame =
  columns :: "pystr list"
  rows :: "cell list list"

definition wf_frame :: "frame \<Rightarrow> bool" where
  "wf_frame df \<longleftrightarrow> (\<forall>r \<in> set (rows df). length r = length (columns df))"

text \<open>\<open>pd.DataFrame()\<close>\<close>

definition empty_frame :: frame where
  "empty_frame = \<lparr>columns = [], rows = []\<rparr>"

text \<open>
  What the loader takes from pandas and cannot be read off the repository:
  \<^item> \<open>read_excel\<close>: \<open>pd.read_excel(file_name, skiprows=4, engine='openpyxl')\<close>, which raises or
    returns a frame whose labels are the header cells (here already passed through \<open>str\<close>);
  \<^item> \<open>parse_number\<close>: the number \<open>pd.to_numeric\<close> reads from a text cell, \<open>None\<close> when the
    text fails coercion;
  \<^item> \<open>where_duplicated\<close>: the outcome of \<open>df[df[c].isin(values)]\<close> when several columns carry
    the label \<open>c\<close>. Then \<open>df[c]\<close> is a frame, not a series, and the outcome of indexing with
    a Boolean frame under duplicated labels differs between pandas versions.
\<close>

record pandas =
  read_excel :: "pystr \<Rightarrow> exn + frame"
  parse_number :: "pystr \<Rightarrow> real option"
  where_duplicated :: "frame \<Rightarrow> pystr \<Rightarrow> exn + frame"

text \<open>The positions of the columns labelled \<open>c\<close>.\<close>

definition positions :: "'a \<Rightarrow> 'a list \<Rightarrow> nat list" where
  "positions c cs = filter (\<lambda>i. cs ! i = c) [0 ..< length cs]"

subsection \<open>The steps of \<open>load_crime_data_for_map\<close>\<close>

text \<open>Step 2: \<open>str(c).replace('\n', ' ').strip()\<close>\<close>

definition normalize_header :: "pystr \<Rightarrow> pystr" where
  "normalize_header c = strip (replace_char 10 32 c)"

text \<open>
  Step 3: the loop over the columns. A later match overwrites an earlier one.
  \<open>x in c\<close> on strings is the contiguous-sublist test.
\<close>

fun find_cols :: "pystr list \<Rightarrow> pystr option \<times> pystr option \<Rightarrow> pystr option \<times> pystr option" where
  "find_cols [] acc = acc"
| "find_cols (c # cs) (district_col, total_col) =
     find_cols cs
       (if sublist (py ''Bezeichnung'') c then Some c else district_col,
        if sublist (py ''Straftaten'') c \<and> sublist (py ''insgesamt'') c then Some c
        else total_col)"

text \<open>\<open>not v\<close> for \<open>v\<close> that is \<open>None\<close> or a string.\<close>

definition falsy :: "pystr option \<Rightarrow> bool" where
  "falsy v \<longleftrightarrow> v = None \<or> v = Some []"

definition berlin_districts :: "pystr list" where
  "berlin_districts =
     [py ''Mitte'', py ''Friedrichshain-Kreuzberg'', py ''Pankow'',
      py ''Charlottenburg-Wilmersdorf'', py ''Spandau'', py ''Steglitz-Zehlendorf'',
      py ''Tempelhof-Sch'' @ [246] @ py ''neberg'', py ''Neuk'' @ [246] @ py ''lln'',
      py ''Treptow-K'' @ [246] @ py ''penick'', py ''Marzahn-Hellersdorf'',
      py ''Lichtenberg'', py ''Reinickendorf'']"

text \<open>\<open>Series.isin(values)\<close> on one cell: only a text equal to a listed name is in.\<close>

definition isin :: "cell \<Rightarrow> pystr list \<Rightarrow> bool" where
  "isin v vals = (case v of Text s \<Rightarrow> s \<in> set vals | _ \<Rightarrow> False)"

text \<open>
  Step 4: \<open>df[df[district_col].isin(berlin_districts)].copy()\<close>. With one column of that
  label the Boolean series keeps the rows where it is true.
\<close>

definition filter_districts :: "pandas \<Rightarrow> frame \<Rightarrow> pystr \<Rightarrow> exn + frame" where
  "filter_districts pd df district_col =
     (case positions district_col (columns df) of
        [] \<Rightarrow> Inl KeyError
      | [i] \<Rightarrow> Inr (df\<lparr>rows := filter (\<lambda>r. isin (r ! i) berlin_districts) (rows df)\<rparr>)
      | _ \<Rightarrow> where_duplicated pd df district_col)"

text \<open>
  Step 5: \<open>df[total_col] = pd.to_numeric(df[total_col], errors='coerce').fillna(0)\<close>.
  \<open>to_numeric\<close> gives \<open>None\<close> for NaN; on a frame (several columns of that label) it raises
  \<open>TypeError\<close>.
\<close>

definition to_numeric :: "pandas \<Rightarrow> cell \<Rightarrow> real option" where
  "to_numeric pd v = (case v of Num x \<Rightarrow> Some x | Text s \<Rightarrow> parse_number pd s | Blank \<Rightarrow> None)"

definition fillna :: "real \<Rightarrow> real option \<Rightarrow> cell" where
  "fillna d v = (case v of None \<Rightarrow> Num d | Some x \<Rightarrow> Num x)"

definition coerce_total :: "pandas \<Rightarrow> frame \<Rightarrow> pystr \<Rightarrow> exn + frame" where
  "coerce_total pd df total_col =
     (case positions total_col (columns df) of
        [] \<Rightarrow> Inl KeyError
      | [j] \<Rightarrow> Inr (df\<lparr>rows := map (\<lambda>r. r[j := fillna 0 (to_numeric pd (r ! j))]) (rows df)\<rparr>)
      | _ \<Rightarrow> Inl TypeError)"

text \<open>
  Step 6: \<open>df.rename(columns={district_col: 'District', total_col: 'Total_Crime'})\<close>. When
  both keys are the same string the dictionary holds the later entry only.
\<close>

definition rename_columns :: "frame \<Rightarrow> pystr \<Rightarrow> pystr \<Rightarrow> frame" where
  "rename_columns df district_col total_col =
     df\<lparr>columns :=
          map (\<lambda>c. if c = total_col then py ''Total_Crime''
                   else if c = district_col then py ''District'' else c) (columns df)\<rparr>"

text \<open>
  \<open>df[labels]\<close> for a list of labels: every column carrying a listed label, in the order of
  the list; \<open>KeyError\<close> when a label names no column.
\<close>

definition select_columns :: "frame \<Rightarrow> pystr list \<Rightarrow> exn + frame" where
  "select_columns df labels =
     (if \<exists>l \<in> set labels. positions l (columns df) = [] then Inl KeyError
      else let ps = concat (map (\<lambda>l. positions l (columns df)) labels)
           in Inr \<lparr>columns = map (\<lambda>p. columns df ! p) ps,
                   rows = map (\<lambda>r. map (\<lambda>p. r ! p) ps) (rows df)\<rparr>)"

text \<open>Steps 4 to 6, reached with both column names found.\<close>

definition normalize_rows :: "pandas \<Rightarrow> frame \<Rightarrow> pystr \<Rightarrow> pystr \<Rightarrow> exn + frame" where
  "normalize_rows pd df district_col total_col =
     bindE (filter_districts pd df district_col) (\<lambda>df1.
     bindE (coerce_total pd df1 total_col) (\<lambda>df2.
     select_columns (rename_columns df2 district_col total_col)
       [py ''District'', py ''Total_Crime'']))"

text \<open>
  The body of the \<open>try\<close> block; \<open>except Exception\<close> follows in \<open>load_crime_data_for_map\<close>.
  The memoisation of \<open>st.cache_data\<close> is not modelled. Past the test \<open>not district_col or not total_col\<close> both
  names are strings, so \<open>the\<close> is applied to \<open>Some\<close> only.
\<close>

definition load_body :: "pandas \<Rightarrow> pystr \<Rightarrow> exn + frame" where
  "load_body pd file_name =
     bindE (read_excel pd file_name) (\<lambda>df0.
       let df = df0\<lparr>columns := map normalize_header (columns df0)\<rparr>;
           found = find_cols (columns df) (None, None);
           district_col = fst found;
           total_col = snd found
       in if falsy district_col \<or> falsy total_col then Inr empty_frame
          else normalize_rows pd df (the district_col) (the total_col))"

definition CRIME_FILE_NAME :: pystr where
  "CRIME_FILE_NAME = py ''2023_berlin_crime.xlsx''"

definition load_crime_data_for_map :: "pandas \<Rightarrow> pystr \<Rightarrow> exn + frame" where
  "load_crime_data_for_map pd file_name = try_except (load_body pd file_name) empty_frame"

subsection \<open>Reading the loader's steps and its output\<close>

text \<open>The rows that step 4 keeps when the district column is at position \<open>i\<close>.\<close>

definition retained :: "frame \<Rightarrow> nat \<Rightarrow> cell list list" where
  "retained df i = filter (\<lambda>r. isin (r ! i) berlin_districts) (rows df)"

text \<open>The labels after step 6.\<close>

definition renamed :: "pystr \<Rightarrow> pystr \<Rightarrow> pystr list \<Rightarrow> pystr list" where
  "renamed d t cs =
     map (\<lambda>c. if c = t then py ''Total_Crime'' else if c = d then py ''District'' else c) cs"

text \<open>The cells of a row that stand under a column labelled \<open>District\<close>, or \<open>Total_Crime\<close>.\<close>

definition district_values :: "frame \<Rightarrow> cell list \<Rightarrow> cell list" where
  "district_values out r =
     map snd (filter (\<lambda>cv. fst cv = py ''District'') (zip (columns out) r))"

definition total_values :: "frame \<Rightarrow> cell list \<Rightarrow> cell list" where
  "total_values out r =
     map snd (filter (\<lambda>cv. fst cv = py ''Total_Crime'') (zip (columns out) r))"

text \<open>The cells of a row of \<open>df\<close> under the columns that carry the label \<open>d\<close>.\<close>

definition district_cells :: "frame \<Rightarrow> pystr \<Rightarrow> cell list \<Rightarrow> cell list" where
  "district_cells df d r = map (\<lambda>p. r ! p) (positions d (columns df))"

text \<open>
  A list of NormalizedCrimeRow in the words of the specification's data model: under the
  two labels, every row a district of the allow-list and a non-negative number.
\<close>

definition normalized_row :: "cell list \<Rightarrow> bool" where
  "normalized_row r =
     (case r of [Text s, Num x] \<Rightarrow> s \<in> set berlin_districts \<and> 0 \<le> x | _ \<Rightarrow> False)"

definition normalized_rows :: "frame \<Rightarrow> bool" where
  "normalized_rows out \<longleftrightarrow>
     columns out = [py ''District'', py ''Total_Crime''] \<and> list_all normalized_row (rows out)"

text \<open>The parts of the invariant of a normalized table.\<close>

definition totals_are_numbers :: "frame \<Rightarrow> bool" where
  "totals_are_numbers out \<longleftrightarrow>
     (\<forall>r \<in> set (rows out). \<forall>v \<in> set (total_values out r).
        case v of Num x \<Rightarrow> True | _ \<Rightarrow> False)"

definition nonneg_totals :: "frame \<Rightarrow> bool" where
  "nonneg_totals out \<longleftrightarrow>
     (\<forall>r \<in> set (rows out). \<forall>v \<in> set (total_values out r).
        case v of Num x \<Rightarrow> 0 \<le> x | _ \<Rightarrow> False)"

definition one_row_per_district :: "frame \<Rightarrow> bool" where
  "one_row_per_district out \<longleftrightarrow> distinct (map (district_values out) (rows out))"

section \<open>The gateways\<close>

subsection \<open>Decoded JSON and the Python operations on it\<close>

text \<open>
  A value decoded from JSON, and any other value the gateways hand on: \<open>None\<close>, a Boolean,
  a number, a string, a list, or a dictionary with string keys (its items, in order, no
  key twice).
\<close>

datatype pyval =
  PyNone | PyBool bool | PyNum real | PyStr pystr | PyList "pyval list"
  | PyDict "(pystr \<times> pyval) list"

text \<open>\<open>v[k]\<close> for a string \<open>k\<close>\<close>

fun getitem :: "pyval \<Rightarrow> pystr \<Rightarrow> exn + pyval" where
  "getitem (PyDict kvs) k = (case map_of kvs k of None \<Rightarrow> Inl KeyError | Some v \<Rightarrow> Inr v)"
| "getitem _ k = Inl TypeError"

text \<open>\<open>v[0]\<close>\<close>

fun getitem0 :: "pyval \<Rightarrow> exn + pyval" where
  "getitem0 (PyList []) = Inl IndexError"
| "getitem0 (PyList (x # xs)) = Inr x"
| "getitem0 (PyStr []) = Inl IndexError"
| "getitem0 (PyStr (c # cs)) = Inr (PyStr [c])"
| "getitem0 (PyDict kvs) = Inl KeyError"
| "getitem0 _ = Inl TypeError"

text \<open>\<open>k in v\<close> for a string \<open>k\<close>\<close>

fun contains :: "pystr \<Rightarrow> pyval \<Rightarrow> exn + bool" where
  "contains k (PyDict kvs) = Inr (k \<in> fst ` set kvs)"
| "contains k (PyList xs) = Inr (PyStr k \<in> set xs)"
| "contains k (PyStr s) = Inr (sublist k s)"
| "contains k _ = Inl TypeError"

text \<open>The elements that \<open>for element in v\<close> runs through\<close>

fun iterate :: "pyval \<Rightarrow> exn + pyval list" where
  "iterate (PyList xs) = Inr xs"
| "iterate (PyDict kvs) = Inr (map (\<lambda>kv. PyStr (fst kv)) kvs)"
| "iterate (PyStr s) = Inr (map (\<lambda>c. PyStr [c]) s)"
| "iterate _ = Inl TypeError"

text \<open>\<open>if v:\<close>\<close>

fun truthy :: "pyval \<Rightarrow> bool" where
  "truthy PyNone = False"
| "truthy (PyBool b) = b"
| "truthy (PyNum x) = (x \<noteq> 0)"
| "truthy (PyStr s) = (s \<noteq> [])"
| "truthy (PyList xs) = (xs \<noteq> [])"
| "truthy (PyDict kvs) = (kvs \<noteq> [])"

subsection \<open>The outside world\<close>

record request =
  url :: pystr
  params :: "(pystr \<times> pystr) list"
  headers :: "(pystr \<times> pystr) list"

text \<open>A call that leaves the process: an HTTP GET or a completion request to the model.\<close>

datatype call = HttpGet request | GenerateContent pystr

text \<open>
  What the gateways take from outside the repository:
  \<^item> \<open>get_json\<close>: \<open>requests.get(url, params=..., headers=...).json()\<close>, the decoded answer or
    the exception of the transport or of the decoder;
  \<^item> \<open>generate_text\<close>: \<open>genai.GenerativeModel('gemini-pro').generate_content(prompt).text\<close>;
  \<^item> \<open>GEMINI_API_KEY\<close>: the secret read at start-up, \<open>""\<close> when absent;
  \<^item> \<open>float_of_str\<close>: \<open>float(s)\<close> on a string, \<open>None\<close> where it raises \<open>ValueError\<close>;
  \<^item> \<open>float_of_num\<close>: \<open>float(x)\<close> on a number, the double nearest to it, \<open>None\<close> where it raises
    \<open>OverflowError\<close> (an integer too large for a double);
  \<^item> \<open>str_of\<close>: how an f-string prints a value that is not a string.
\<close>

record world =
  get_json :: "request \<Rightarrow> exn + pyval"
  generate_text :: "pystr \<Rightarrow> exn + pystr"
  GEMINI_API_KEY :: pystr
  float_of_str :: "pystr \<Rightarrow> real option"
  float_of_num :: "real \<Rightarrow> real option"
  str_of :: "pyval \<Rightarrow> pystr"

text \<open>\<open>float(v)\<close>\<close>

fun py_float :: "world \<Rightarrow> pyval \<Rightarrow> exn + pyval" where
  "py_float w (PyNum x) =
     (case float_of_num w x of None \<Rightarrow> Inl OverflowError | Some y \<Rightarrow> Inr (PyNum y))"
| "py_float w (PyBool b) = Inr (PyNum (if b then 1 else 0))"
| "py_float w (PyStr s) =
     (case float_of_str w s of None \<Rightarrow> Inl ValueError | Some x \<Rightarrow> Inr (PyNum x))"
| "py_float w _ = Inl TypeError"

text \<open>\<open>f"{v}"\<close>\<close>

definition format_value :: "world \<Rightarrow> pyval \<Rightarrow> pystr" where
  "format_value w v = (case v of PyStr s \<Rightarrow> s | _ \<Rightarrow> str_of w v)"

text \<open>
  A gateway returns its outcome together with the calls it issued, in order. The
  memoisation of \<open>st.cache_data\<close> is not modelled: every call here is a cache miss.
\<close>

subsection \<open>\<open>get_exchange_rate\<close>\<close>

definition exchange_rate_request :: request where
  "exchange_rate_request =
     \<lparr>url = py ''https://api.exchangerate-api.com/v4/latest/EUR'', params = [], headers = []\<rparr>"

definition exchange_rate_body :: "world \<Rightarrow> exn + pyval" where
  "exchange_rate_body w =
     bindE (get_json w exchange_rate_request) (\<lambda>data.
     bindE (getitem data (py ''rates'')) (\<lambda>rates.
     getitem rates (py ''KRW'')))"

definition get_exchange_rate :: "world \<Rightarrow> (exn + pyval) \<times> call list" where
  "get_exchange_rate w =
     (try_except (exchange_rate_body w) (PyNum 1450), [HttpGet exchange_rate_request])"

subsection \<open>\<open>get_weather\<close>\<close>

definition weather_request :: request where
  "weather_request =
     \<lparr>url = py ''https://api.open-meteo.com/v1/forecast?latitude=52.52&longitude=13.41&current_weather=true'',
      params = [], headers = []\<rparr>"

definition weather_fallback :: pyval where
  "weather_fallback = PyDict [(py ''temperature'', PyNum 15), (py ''weathercode'', PyNum 0)]"

definition weather_body :: "world \<Rightarrow> exn + pyval" where
  "weather_body w =
     bindE (get_json w weather_request) (\<lambda>data. getitem data (py ''current_weather''))"

definition get_weather :: "world \<Rightarrow> (exn + pyval) \<times> call list" where
  "get_weather w = (try_except (weather_body w) weather_fallback, [HttpGet weather_request])"

subsection \<open>\<open>get_osm_places\<close>\<close>

definition restaurant_tag :: pystr where
  \<open>restaurant_tag = py ''["amenity"="restaurant"]''\<close>

definition hotel_tag :: pystr where
  \<open>hotel_tag = py ''["tourism"="hotel"]''\<close>

definition tourism_tag :: pystr where
  \<open>tourism_tag = py ''["tourism"~"attraction|museum|artwork|viewpoint"]''\<close>

text \<open>The \<open>if\<close>/\<open>elif\<close> chain on the category; \<open>None\<close> is its \<open>else: return []\<close>.\<close>

definition category_tag :: "pystr \<Rightarrow> pystr option" where
  "category_tag category =
     (if category = py ''restaurant'' then Some restaurant_tag
      else if category = py ''hotel'' then Some hotel_tag
      else if category = py ''tourism'' then Some tourism_tag
      else None)"

definition overpass_query :: "world \<Rightarrow> pystr \<Rightarrow> pyval \<Rightarrow> pyval \<Rightarrow> pyval \<Rightarrow> pystr" where
  "overpass_query w tag lat lng radius_m =
     [10] @ py ''    [out:json];'' @ [10] @ py ''    ('' @ [10] @
     py ''      node'' @ tag @ py ''(around:'' @ format_value w radius_m @ py '','' @
       format_value w lat @ py '','' @ format_value w lng @ py '');'' @ [10] @
     py ''    );'' @ [10] @ py ''    out body;'' @ [10] @ py ''    ''"

definition overpass_request :: "pystr \<Rightarrow> request" where
  "overpass_request query =
     \<lparr>url = py ''http://overpass-api.de/api/interpreter'', params = [(py ''data'', query)],
      headers = []\<rparr>"

text \<open>
  One round of the loop over \<open>data['elements']\<close>: the dictionary appended to \<open>results\<close>,
  \<open>None\<close> when the element is skipped, or the exception that ends the loop.
\<close>

definition place_of :: "world \<Rightarrow> pyval \<Rightarrow> exn + pyval option" where
  "place_of w element =
     bindE (contains (py ''tags'') element) (\<lambda>has_tags.
       if \<not> has_tags then Inr None
       else
         bindE (getitem element (py ''tags'')) (\<lambda>tags.
         bindE (contains (py ''name'') tags) (\<lambda>has_name.
           if \<not> has_name then Inr None
           else
             bindE (getitem tags (py ''name'')) (\<lambda>name.
               let search_query = replace_char 32 43 (format_value w name @ py '' Berlin'');
                   link = py ''https://www.google.com/search?q='' @ search_query
               in bindE (getitem element (py ''lat'')) (\<lambda>lat.
                  bindE (getitem element (py ''lon'')) (\<lambda>lon.
                    Inr (Some (PyDict [(py ''name'', name), (py ''lat'', lat),
                                       (py ''lng'', lon), (py ''link'', PyStr link)]))))))))"

fun collect_places :: "world \<Rightarrow> pyval list \<Rightarrow> pyval list \<Rightarrow> exn + pyval list" where
  "collect_places w [] results = Inr results"
| "collect_places w (element # elements) results =
     (case place_of w element of
        Inl e \<Rightarrow> Inl e
      | Inr None \<Rightarrow> collect_places w elements results
      | Inr (Some p) \<Rightarrow> collect_places w elements (results @ [p]))"

definition osm_places_body :: "world \<Rightarrow> request \<Rightarrow> exn + pyval list" where
  "osm_places_body w req =
     bindE (get_json w req) (\<lambda>data.
     bindE (getitem data (py ''elements'')) (\<lambda>elements.
     bindE (iterate elements) (\<lambda>es. collect_places w es [])))"

definition get_osm_places ::
  "world \<Rightarrow> pystr \<Rightarrow> pyval \<Rightarrow> pyval \<Rightarrow> pyval \<Rightarrow> (exn + pyval list) \<times> call list" where
  "get_osm_places w category lat lng radius_m =
     (case category_tag category of
        None \<Rightarrow> (Inr [], [])
      | Some tag \<Rightarrow>
          let req = overpass_request (overpass_query w tag lat lng radius_m)
          in (try_except (osm_places_body w req) [], [HttpGet req]))"

subsection \<open>\<open>search_location\<close>\<close>

definition nominatim_request :: "pystr \<Rightarrow> request" where
  "nominatim_request query =
     \<lparr>url = py ''https://nominatim.openstreetmap.org/search'',
      params = [(py ''q'', query), (py ''format'', py ''json''), (py ''limit'', py ''1'')],
      headers = [(py ''User-Agent'', py ''BerlinApp/1.0'')]\<rparr>"

text \<open>
  The \<open>try\<close> block: \<open>Some\<close> of the triple it returns, or \<open>None\<close> when \<open>res\<close> is falsy and
  control leaves the block without a \<open>return\<close>.
\<close>

definition search_location_body :: "world \<Rightarrow> pystr \<Rightarrow> exn + (pyval \<times> pyval \<times> pyval) option" where
  "search_location_body w query =
     bindE (get_json w (nominatim_request query)) (\<lambda>res.
       if truthy res then
         bindE (getitem0 res) (\<lambda>r0.
         bindE (getitem r0 (py ''lat'')) (\<lambda>lat_v.
         bindE (py_float w lat_v) (\<lambda>lat.
         bindE (getitem r0 (py ''lon'')) (\<lambda>lon_v.
         bindE (py_float w lon_v) (\<lambda>lon.
         bindE (getitem r0 (py ''display_name'')) (\<lambda>display_name.
           Inr (Some (lat, lon, display_name))))))))
       else Inr None)"

text \<open>\<open>except: pass\<close>, then \<open>return None, None, None\<close>\<close>

definition search_location :: "world \<Rightarrow> pystr \<Rightarrow> (exn + pyval \<times> pyval \<times> pyval) \<times> call list" where
  "search_location w query =
     (case search_location_body w query of
        Inr (Some triple) \<Rightarrow> Inr triple
      | _ \<Rightarrow> Inr (PyNone, PyNone, PyNone),
      [HttpGet (nominatim_request query)])"

subsection \<open>\<open>get_gemini_response\<close>\<close>

text \<open>The two fixed messages, as code points.\<close>

definition key_needed_message :: pystr where
  "key_needed_message = py ''API '' @ [53412, 44032, 32, 54596, 50836, 54633, 45768, 45796, 46]"

definition ai_error_message :: pystr where
  "ai_error_message = py ''AI '' @ [50724, 47448]"

definition get_gemini_response :: "world \<Rightarrow> pystr \<Rightarrow> (exn + pystr) \<times> call list" where
  "get_gemini_response w prompt =
     (if GEMINI_API_KEY w = [] then (Inr key_needed_message, [])
      else (try_except (generate_text w prompt) ai_error_message, [GenerateContent prompt]))"

section \<open>Session state and its handlers\<close>

text \<open>
  A recommendation is a dictionary \<open>{"place": ..., "desc": ..., "replies": [...]}\<close>. Its list
  of replies is a mutable object that the reply handler appends to in place, through the
  loop variable \<open>rec\<close>. So the session keeps a store of reply lists by address, and a stored
  recommendation holds the address of its list. The two strings are immutable and no
  handler assigns to a key of a stored dictionary.
\<close>

record recommendation =
  place :: pystr
  desc :: pystr
  replies :: "pystr list"

record stored_recommendation =
  r_place :: pystr
  r_desc :: pystr
  r_replies :: nat

text \<open>
  The keys of \<open>st.session_state\<close> that a handler reads or writes (\<open>reviews\<close> is set to \<open>{}\<close>
  once and never used), with the store of reply lists and the next unused address.
\<close>

record session =
  recommendations :: "stored_recommendation list"
  reply_lists :: "nat \<Rightarrow> pystr list"
  next_address :: nat
  messages :: "(pystr \<times> pystr) list"
  map_center :: "pyval \<times> pyval"
  search_marker :: pyval

definition initial_session :: session where
  "initial_session =
     \<lparr>recommendations = [], reply_lists = (\<lambda>a. []), next_address = 0, messages = [],
      map_center = (PyNum 52.52, PyNum 13.405), search_marker = PyNone\<rparr>"

text \<open>What \<open>st.session_state['recommendations']\<close> reads as: each dictionary with its replies.\<close>

definition content :: "session \<Rightarrow> stored_recommendation \<Rightarrow> recommendation" where
  "content s r = \<lparr>place = r_place r, desc = r_desc r, replies = reply_lists s (r_replies r)\<rparr>"

definition recommendation_list :: "session \<Rightarrow> recommendation list" where
  "recommendation_list s = map (content s) (recommendations s)"

text \<open>
  The sidebar search: \<open>if search_query:\<close> guards the call, \<open>if lat:\<close> the two assignments.
\<close>

definition sidebar_search :: "world \<Rightarrow> pystr \<Rightarrow> session \<Rightarrow> session \<times> call list" where
  "sidebar_search w search_query s =
     (if search_query = [] then (s, [])
      else
        case search_location w (search_query @ py '' Berlin'') of
          (Inr (lat, lng, name), calls) \<Rightarrow>
            (if truthy lat
             then s\<lparr>map_center := (lat, lng),
                    search_marker :=
                      PyDict [(py ''lat'', lat), (py ''lng'', lng), (py ''name'', name)]\<rparr>
             else s, calls)
        | (Inl e, calls) \<Rightarrow> (s, calls))"

text \<open>
  The form \<open>rec_form\<close>: \<open>insert(0, {"place": name, "desc": desc, "replies": []})\<close>. The list
  display \<open>[]\<close> allocates a new list.
\<close>

definition submit_recommendation :: "pystr \<Rightarrow> pystr \<Rightarrow> session \<Rightarrow> session" where
  "submit_recommendation name description s =
     s\<lparr>recommendations :=
          \<lparr>r_place = name, r_desc = description, r_replies = next_address s\<rparr>
          # recommendations s,
       reply_lists := (reply_lists s)(next_address s := []),
       next_address := Suc (next_address s)\<rparr>"

text \<open>
  The button \<open>reply_btn_i\<close>: \<open>rec['replies'].append(r_text)\<close> for the \<open>i\<close>-th entry. The loop
  draws a button for the entries of the list only.
\<close>

definition append_reply :: "nat \<Rightarrow> pystr \<Rightarrow> session \<Rightarrow> session" where
  "append_reply i r_text s =
     (if i < length (recommendations s)
      then let a = r_replies (recommendations s ! i)
           in s\<lparr>reply_lists := (reply_lists s)(a := reply_lists s a @ [r_text])\<rparr>
      else s)"

text \<open>The chat input: the prompt and the assistant's answer are appended to the history.\<close>

definition chat :: "world \<Rightarrow> pystr \<Rightarrow> session \<Rightarrow> session \<times> call list" where
  "chat w prompt s =
     (if prompt = [] then (s, [])
      else
        case get_gemini_response w prompt of
          (Inr resp, calls) \<Rightarrow>
            (s\<lparr>messages := messages s @ [(py ''user'', prompt), (py ''assistant'', resp)]\<rparr>,
             calls)
        | (Inl e, calls) \<Rightarrow>
            (s\<lparr>messages := messages s @ [(py ''user'', prompt)]\<rparr>, calls))"

text \<open>The states a session can be in: the initial one and what the handlers make of them.\<close>

inductive_set reachable :: "world \<Rightarrow> session set" for w :: world where
  init: "initial_session \<in> reachable w"
| search: "s \<in> reachable w \<Longrightarrow> fst (sidebar_search w q s) \<in> reachable w"
| submit: "s \<in> reachable w \<Longrightarrow> submit_recommendation name description s \<in> reachable w"
| reply: "s \<in> reachable w \<Longrightarrow> append_reply i r_text s \<in> reachable w"
| ask: "s \<in> reachable w \<Longrightarrow> fst (chat w prompt s) \<in> reachable w"

text \<open>No two stored recommendations share a reply list, and every address in use is allocated.\<close>

definition separate_replies :: "session \<Rightarrow> bool" where
  "separate_replies s \<longleftrightarrow>
     distinct (map r_replies (recommendations s)) \<and>
     (\<forall>r \<in> set (recommendations s). r_replies r < next_address s)"

section \<open>Example inputs\<close>

text \<open>
  A pandas that reads the given sheet whatever the file name and parses unsigned decimal
  integers, which is all the examples need of \<open>to_numeric\<close>.
\<close>

definition parse_digits :: "pystr \<Rightarrow> real option" where
  "parse_digits s =
     (if s \<noteq> [] \<and> list_all (\<lambda>c. 48 \<le> c \<and> c \<le> 57) s
      then Some (real (foldl (\<lambda>n c. 10 * n + (c - 48)) 0 s)) else None)"

definition excel_with :: "frame \<Rightarrow> pandas" where
  "excel_with df =
     \<lparr>read_excel = (\<lambda>f. Inr df), parse_number = parse_digits,
      where_duplicated = (\<lambda>df c. Inl ValueError)\<rparr>"

text \<open>The sheet of the scenario: two headers, the row of Mitte and a row of totals.\<close>

definition scenario_sheet :: frame where
  "scenario_sheet =
     \<lparr>columns = [py ''Bezeichnung (Bezirk)'', py ''Straftaten -insgesamt-''],
      rows = [[Text (py ''Mitte''), Text (py ''12345'')],
              [Text (py ''Berlin total''), Text (py ''99999'')]]\<rparr>"

definition scenario_output :: frame where
  "scenario_output =
     \<lparr>columns = [py ''District'', py ''Total_Crime''],
      rows = [[Text (py ''Mitte''), Num 12345]]\<rparr>"

text \<open>A sheet with neither of the two headers.\<close>

definition headless_sheet :: frame where
  "headless_sheet =
     \<lparr>columns = [py ''Bezirk'', py ''Anzahl''], rows = [[Text (py ''Mitte''), Num 12345]]\<rparr>"

text \<open>
  A sheet with a third column that is already called \<open>District\<close>, a row for Mitte and a row
  of totals.
\<close>

definition collision_sheet :: frame where
  "collision_sheet =
     \<lparr>columns = [py ''Bezeichnung (Bezirk)'', py ''Straftaten -insgesamt-'', py ''District''],
      rows = [[Text (py ''Mitte''), Num 12345, Text (py ''Zentrum'')],
              [Text (py ''Berlin total''), Num 99999, Text (py ''Gesamt'')]]\<rparr>"

definition collision_output :: frame where
  "collision_output =
     \<lparr>columns = [py ''District'', py ''District'', py ''Total_Crime''],
      rows = [[Text (py ''Mitte''), Text (py ''Zentrum''), Num 12345]]\<rparr>"

text \<open>A sheet with a third column that is already called \<open>Total_Crime\<close>.\<close>

definition total_collision_sheet :: frame where
  "total_collision_sheet =
     \<lparr>columns = [py ''Bezeichnung (Bezirk)'', py ''Straftaten -insgesamt-'', py ''Total_Crime''],
      rows = [[Text (py ''Mitte''), Num 12345, Text (py ''hoch'')]]\<rparr>"

definition total_collision_output :: frame where
  "total_collision_output =
     \<lparr>columns = [py ''District'', py ''Total_Crime'', py ''Total_Crime''],
      rows = [[Text (py ''Mitte''), Num 12345, Text (py ''hoch'')]]\<rparr>"

text \<open>
  A sheet whose first header holds all three keyword fragments, so that it is the district
  header and the total-offenses header at once, beside a column already called \<open>District\<close>.
\<close>

definition merged_header_sheet :: frame where
  "merged_header_sheet =
     \<lparr>columns = [py ''Bezeichnung Straftaten insgesamt'', py ''District''],
      rows = [[Text (py ''Mitte''), Text (py ''Nord'')],
              [Text (py ''Pankow''), Text (py ''Nord'')]]\<rparr>"

definition merged_header_output :: frame where
  "merged_header_output =
     \<lparr>columns = [py ''District'', py ''Total_Crime''],
      rows = [[Text (py ''Nord''), Num 0], [Text (py ''Nord''), Num 0]]\<rparr>"

text \<open>A sheet with a negative count for Spandau.\<close>

definition debit_sheet :: frame where
  "debit_sheet =
     \<lparr>columns = [py ''Bezeichnung (Bezirk)'', py ''Straftaten -insgesamt-''],
      rows = [[Text (py ''Spandau''), Num (- 3)]]\<rparr>"

definition debit_output :: frame where
  "debit_output =
     \<lparr>columns = [py ''District'', py ''Total_Crime''],
      rows = [[Text (py ''Spandau''), Num (- 3)]]\<rparr>"

text \<open>
  A sheet with rows for two districts, the count of the second being the text \<open>n/a\<close>, and a
  row of totals; the frame of its retained rows; the table expected of the loader.
\<close>

definition districts_sheet :: frame where
  "districts_sheet =
     \<lparr>columns = [py ''Bezeichnung (Bezirk)'', py ''Straftaten -insgesamt-''],
      rows = [[Text (py ''Mitte''), Text (py ''12345'')],
              [Text (py ''Pankow''), Text (py ''n/a'')],
              [Text (py ''Berlin total''), Text (py ''99999'')]]\<rparr>"

definition districts_retained :: frame where
  "districts_retained =
     \<lparr>columns = [py ''Bezeichnung (Bezirk)'', py ''Straftaten -insgesamt-''],
      rows = [[Text (py ''Mitte''), Text (py ''12345'')],
              [Text (py ''Pankow''), Text (py ''n/a'')]]\<rparr>"

definition districts_output :: frame where
  "districts_output =
     \<lparr>columns = [py ''District'', py ''Total_Crime''],
      rows = [[Text (py ''Mitte''), Num 12345], [Text (py ''Pankow''), Num 0]]\<rparr>"

text \<open>A sheet with two rows for Mitte, one of them with a negative count.\<close>

definition negative_sheet :: frame where
  "negative_sheet =
     \<lparr>columns = [py ''Bezeichnung (Bezirk)'', py ''Straftaten -insgesamt-''],
      rows = [[Text (py ''Mitte''), Num (- 5)], [Text (py ''Mitte''), Num 7]]\<rparr>"

definition negative_output :: frame where
  "negative_output =
     \<lparr>columns = [py ''District'', py ''Total_Crime''],
      rows = [[Text (py ''Mitte''), Num (- 5)], [Text (py ''Mitte''), Num 7]]\<rparr>"

text \<open>A sheet whose count for Mitte is the text \<open>n/a\<close>.\<close>

definition dirty_sheet :: frame where
  "dirty_sheet =
     \<lparr>columns = [py ''Bezeichnung (Bezirk)'', py ''Straftaten -insgesamt-''],
      rows = [[Text (py ''Mitte''), Text (py ''n/a'')],
              [Text (py ''Berlin total''), Text (py ''99999'')]]\<rparr>"

definition dirty_retained :: frame where
  "dirty_retained =
     \<lparr>columns = [py ''Bezeichnung (Bezirk)'', py ''Straftaten -insgesamt-''],
      rows = [[Text (py ''Mitte''), Text (py ''n/a'')]]\<rparr>"

definition dirty_output :: frame where
  "dirty_output =
     \<lparr>columns = [py ''District'', py ''Total_Crime''], rows = [[Text (py ''Mitte''), Num 0]]\<rparr>"

text \<open>
  \<open>float(x)\<close> as the example worlds have it: \<open>OverflowError\<close> from \<open>2 ^ 1024 - 2 ^ 970\<close> on,
  where the nearest double would be infinite, and no rounding below, the numbers of the
  examples being doubles.
\<close>

definition double_of :: "real \<Rightarrow> real option" where
  "double_of x = (if 2 ^ 1024 - 2 ^ 970 \<le> \<bar>x\<bar> then None else Some x)"

text \<open>A world in which every call to the outside fails, with an API key configured.\<close>

definition offline :: world where
  "offline =
     \<lparr>get_json = (\<lambda>req. Inl OtherError), generate_text = (\<lambda>prompt. Inl OtherError),
      GEMINI_API_KEY = py ''key'', float_of_str = (\<lambda>s. None), float_of_num = double_of,
      str_of = (\<lambda>v. [])\<rparr>"

text \<open>
  A world in which every request is answered by the JSON text \<open>[1]\<close>, which decodes but has
  none of the expected keys, and the assistant's answer has no text.
\<close>

definition garbled :: world where
  "garbled =
     \<lparr>get_json = (\<lambda>req. Inr (PyList [PyNum 1])), generate_text = (\<lambda>prompt. Inl TypeError),
      GEMINI_API_KEY = py ''key'', float_of_str = (\<lambda>s. None), float_of_num = double_of,
      str_of = (\<lambda>v. [])\<rparr>"

text \<open>
  A world whose geocoder answers the query of four spaces and \<open>Berlin\<close> with one result,
  and nothing else.
\<close>

definition berlin_answer :: pyval where
  "berlin_answer =
     PyList [PyDict [(py ''lat'', PyStr (py ''52.5'')), (py ''lon'', PyStr (py ''13.4'')),
                     (py ''display_name'', PyStr (py ''Berlin, Deutschland''))]]"

definition berlin_web :: world where
  "berlin_web =
     \<lparr>get_json = (\<lambda>req. if req = nominatim_request (py ''    Berlin'') then Inr berlin_answer
                        else Inl OtherError),
      generate_text = (\<lambda>prompt. Inl OtherError),
      GEMINI_API_KEY = [],
      float_of_str = (\<lambda>s. if s = py ''52.5'' then Some 52.5
                           else if s = py ''13.4'' then Some 13.4 else None),
      float_of_num = double_of,
      str_of = (\<lambda>v. [])\<rparr>"

text \<open>The session after one recommendation was submitted.\<close>

definition one_recommendation :: session where
  "one_recommendation =
     submit_recommendation (py ''Alexanderplatz'') (py ''Great views'') initial_session"

section \<open>Proofs\<close>

subsection \<open>Exceptions\<close>

lemma bindE_simps [simp]:
  "bindE (Inl e) f = Inl e" "bindE (Inr v) f = f v"
  by (simp_all add: bindE_def)

lemma try_except_simps [simp]:
  "try_except (Inl e) d = Inr d" "try_except (Inr v) d = Inr v"
  by (simp_all add: try_except_def)

lemma try_except_returns: "\<exists>v. try_except body d = Inr v"
  by (cases body) simp_all

subsection \<open>Headers\<close>

text \<open>Normalizing a header creates no occurrence of a fragment that has no blank in it.\<close>

lemma sublist_strip:
  assumes "sublist xs (strip s)" shows "sublist xs s"
proof -
  have "sublist (strip s) (dropWhile isspace s)"
    unfolding strip_def by (simp add: sublist_rev_left)
  moreover have "sublist (dropWhile isspace s) s" by simp
  ultimately show ?thesis
    using assms by (meson sublist_order.order.trans)
qed

lemma sublist_replace_char:
  assumes "sublist xs (replace_char a b s)" and "b \<notin> set xs"
  shows "sublist xs s"
proof -
  from assms(1) obtain ys where ys: "sublist ys s" "xs = map (\<lambda>c. if c = a then b else c) ys"
    unfolding replace_char_def by (blast dest: sublist_map_rightE)
  have "map (\<lambda>c. if c = a then b else c) ys = ys"
  proof (rule map_idI)
    fix c assume "c \<in> set ys"
    then have "(if c = a then b else c) \<in> set xs" using ys(2) by auto
    with assms(2) show "(if c = a then b else c) = c" by (auto split: if_splits)
  qed
  with ys show ?thesis by simp
qed

lemma sublist_normalize_header:
  "sublist xs (normalize_header c) \<Longrightarrow> 32 \<notin> set xs \<Longrightarrow> sublist xs c"
  unfolding normalize_header_def by (blast intro: sublist_replace_char sublist_strip)

lemma no_space_fragments:
  "32 \<notin> set (py ''Bezeichnung'')" "32 \<notin> set (py ''Straftaten'')" "32 \<notin> set (py ''insgesamt'')"
  by (simp_all add: py_def)

lemma fst_find_cols_None:
  "fst (find_cols cs (d, t)) = None \<longleftrightarrow>
     d = None \<and> (\<forall>c \<in> set cs. \<not> sublist (py ''Bezeichnung'') c)"
  by (induction cs arbitrary: d t) auto

lemma snd_find_cols_None:
  "snd (find_cols cs (d, t)) = None \<longleftrightarrow>
     t = None \<and>
     (\<forall>c \<in> set cs. \<not> (sublist (py ''Straftaten'') c \<and> sublist (py ''insgesamt'') c))"
  by (induction cs arbitrary: d t) auto

lemma find_cols_fst_Some:
  "fst (find_cols cs (d0, t0)) = Some d \<Longrightarrow>
     d0 = Some d \<or> (d \<in> set cs \<and> sublist (py ''Bezeichnung'') d)"
  by (induction cs arbitrary: d0 t0) (auto split: if_splits)

lemma district_col_not_empty:
  assumes "fst (find_cols cs (None, None)) = Some d" shows "d \<noteq> []"
proof -
  from find_cols_fst_Some [OF assms] have "sublist (py ''Bezeichnung'') d" by simp
  then show ?thesis by (auto simp: py_def)
qed

subsection \<open>Evaluating the loader on the examples\<close>

lemmas loader_defs =
  load_crime_data_for_map_def load_body_def excel_with_def normalize_header_def strip_def
  replace_char_def isspace_def py_def sublist_code falsy_def normalize_rows_def
  filter_districts_def positions_def isin_def berlin_districts_def coerce_total_def
  to_numeric_def fillna_def rename_columns_def select_columns_def Let_def parse_digits_def

lemma parse_digits_examples:
  "parse_digits (py ''12345'') = Some 12345" "parse_digits (py ''n/a'') = None"
  by (simp_all add: parse_digits_def py_def)

lemma example_headers:
  "map normalize_header (columns scenario_sheet) =
     [py ''Bezeichnung (Bezirk)'', py ''Straftaten -insgesamt-'']"
  "map normalize_header (columns dirty_sheet) =
     [py ''Bezeichnung (Bezirk)'', py ''Straftaten -insgesamt-'']"
  by (simp_all add: scenario_sheet_def dirty_sheet_def normalize_header_def strip_def
      replace_char_def py_def isspace_def)

lemma scenario_find_cols:
  "find_cols [py ''Bezeichnung (Bezirk)'', py ''Straftaten -insgesamt-''] (None, None) =
     (Some (py ''Bezeichnung (Bezirk)''), Some (py ''Straftaten -insgesamt-''))"
  by (simp add: py_def sublist_code)

lemma scenario_positions:
  "positions (py ''Bezeichnung (Bezirk)'')
     [py ''Bezeichnung (Bezirk)'', py ''Straftaten -insgesamt-''] = [0]"
  "positions (py ''Straftaten -insgesamt-'')
     [py ''Bezeichnung (Bezirk)'', py ''Straftaten -insgesamt-''] = [1]"
  "py ''District'' \<notin> set [py ''Bezeichnung (Bezirk)'', py ''Straftaten -insgesamt-'']"
  "py ''Total_Crime'' \<notin> set [py ''Bezeichnung (Bezirk)'', py ''Straftaten -insgesamt-'']"
  by (simp_all add: positions_def py_def)

lemma load_scenario:
  "load_crime_data_for_map (excel_with scenario_sheet) CRIME_FILE_NAME = Inr scenario_output"
  by (simp add: loader_defs scenario_sheet_def scenario_output_def)

lemma load_dirty:
  "load_crime_data_for_map (excel_with dirty_sheet) CRIME_FILE_NAME = Inr dirty_output"
  by (simp add: loader_defs dirty_sheet_def dirty_output_def)

lemma retained_examples:
  "retained scenario_sheet 0 = [[Text (py ''Mitte''), Text (py ''12345'')]]"
  by (simp add: retained_def scenario_sheet_def isin_def berlin_districts_def py_def)

subsection \<open>The loader never raises\<close>

text \<open>
  Claim C1. For every file identifier the loader returns a table and raises nothing. When
  the sheet was read and none of its headers contains \<open>Bezeichnung\<close>, or none contains both
  \<open>Straftaten\<close> and \<open>insgesamt\<close>, the table returned is the empty one.
\<close>

theorem loader_never_raises:
  "(\<exists>df. load_crime_data_for_map pd file_name = Inr df) \<and>
   (\<forall>df0. read_excel pd file_name = Inr df0 \<and>
      ((\<forall>c \<in> set (columns df0). \<not> sublist (py ''Bezeichnung'') c) \<or>
       (\<forall>c \<in> set (columns df0).
          \<not> (sublist (py ''Straftaten'') c \<and> sublist (py ''insgesamt'') c)))
      \<longrightarrow> load_crime_data_for_map pd file_name = Inr empty_frame)"
proof (intro conjI allI impI)
  show "\<exists>df. load_crime_data_for_map pd file_name = Inr df"
    unfolding load_crime_data_for_map_def by (rule try_except_returns)
next
  fix df0
  assume a: "read_excel pd file_name = Inr df0 \<and>
      ((\<forall>c \<in> set (columns df0). \<not> sublist (py ''Bezeichnung'') c) \<or>
       (\<forall>c \<in> set (columns df0).
          \<not> (sublist (py ''Straftaten'') c \<and> sublist (py ''insgesamt'') c)))"
  let ?cs = "map normalize_header (columns df0)"
  from a have "(\<forall>c \<in> set ?cs. \<not> sublist (py ''Bezeichnung'') c) \<or>
       (\<forall>c \<in> set ?cs. \<not> (sublist (py ''Straftaten'') c \<and> sublist (py ''insgesamt'') c))"
    using sublist_normalize_header no_space_fragments by auto
  then have "fst (find_cols ?cs (None, None)) = None \<or> snd (find_cols ?cs (None, None)) = None"
    by (simp add: fst_find_cols_None snd_find_cols_None)
  then have "falsy (fst (find_cols ?cs (None, None))) \<or> falsy (snd (find_cols ?cs (None, None)))"
    by (auto simp: falsy_def)
  with a show "load_crime_data_for_map pd file_name = Inr empty_frame"
    by (simp add: load_crime_data_for_map_def load_body_def Let_def)
qed

text \<open>C1 on the sheet with the headers \<open>Bezirk\<close> and \<open>Anzahl\<close>.\<close>

theorem loader_never_raises_witness:
  "read_excel (excel_with headless_sheet) CRIME_FILE_NAME = Inr headless_sheet \<and>
   columns headless_sheet = [py ''Bezirk'', py ''Anzahl''] \<and>
   \<not> sublist (py ''Bezeichnung'') (py ''Bezirk'') \<and>
   \<not> sublist (py ''Bezeichnung'') (py ''Anzahl'') \<and>
   load_crime_data_for_map (excel_with headless_sheet) CRIME_FILE_NAME = Inr empty_frame"
proof -
  have r: "read_excel (excel_with headless_sheet) CRIME_FILE_NAME = Inr headless_sheet"
    by (simp add: excel_with_def)
  have c: "columns headless_sheet = [py ''Bezirk'', py ''Anzahl'']"
    by (simp add: headless_sheet_def)
  have n: "\<not> sublist (py ''Bezeichnung'') (py ''Bezirk'')"
    "\<not> sublist (py ''Bezeichnung'') (py ''Anzahl'')"
    by (simp_all add: py_def sublist_code)
  from loader_never_raises [of "excel_with headless_sheet" CRIME_FILE_NAME] r c n
  have "load_crime_data_for_map (excel_with headless_sheet) CRIME_FILE_NAME = Inr empty_frame"
    by simp
  with r c n show ?thesis by simp
qed

subsection \<open>The scenario\<close>

text \<open>
  Claim C2. For the sheet with the headers \<open>Bezeichnung (Bezirk)\<close> and
  \<open>Straftaten -insgesamt-\<close> and the rows (\<open>Mitte\<close>, \<open>12345\<close>) and (\<open>Berlin total\<close>, \<open>99999\<close>), where
  the text \<open>12345\<close> reads as the number 12345, the loader returns the table with the columns
  \<open>District\<close> and \<open>Total_Crime\<close> and the one row (\<open>Mitte\<close>, 12345).
\<close>

theorem scenario_mitte:
  assumes "read_excel pd file_name = Inr scenario_sheet"
      and "parse_number pd (py ''12345'') = Some 12345"
  shows "load_crime_data_for_map pd file_name = Inr scenario_output"
  using assms
  by (simp add: loader_defs scenario_sheet_def scenario_output_def)

text \<open>C2 with the example pandas.\<close>

theorem scenario_mitte_witness:
  "read_excel (excel_with scenario_sheet) CRIME_FILE_NAME = Inr scenario_sheet \<and>
   parse_number (excel_with scenario_sheet) (py ''12345'') = Some 12345 \<and>
   load_crime_data_for_map (excel_with scenario_sheet) CRIME_FILE_NAME = Inr scenario_output \<and>
   rows scenario_output = [[Text (py ''Mitte''), Num 12345]]"
proof -
  have r: "read_excel (excel_with scenario_sheet) CRIME_FILE_NAME = Inr scenario_sheet"
    and p: "parse_number (excel_with scenario_sheet) (py ''12345'') = Some 12345"
    by (simp_all add: excel_with_def parse_digits_examples)
  from scenario_mitte [OF r p] r p show ?thesis
    by (simp add: scenario_output_def)
qed

subsection \<open>Positions of labels\<close>

lemma positions_iff: "p \<in> set (positions c cs) \<longleftrightarrow> p < length cs \<and> cs ! p = c"
  by (auto simp: positions_def)

lemma positions_map_cong:
  assumes "\<And>k. k < length cs \<Longrightarrow> (f (cs ! k) = y) = (cs ! k = c)"
  shows "positions y (map f cs) = positions c cs"
  unfolding positions_def length_map
  by (rule filter_cong) (simp_all add: assms)

lemma positions_map_empty:
  assumes "\<And>k. k < length cs \<Longrightarrow> f (cs ! k) \<noteq> y"
  shows "positions y (map f cs) = []"
  unfolding positions_def using assms by (simp add: filter_empty_conv)

lemma names_differ: "py ''Total_Crime'' \<noteq> py ''District''"
  by (simp add: py_def)

lemma columns_rename_columns: "columns (rename_columns df d t) = renamed d t (columns df)"
  by (simp add: rename_columns_def renamed_def)

lemma rows_rename_columns: "rows (rename_columns df d t) = rows df"
  by (simp add: rename_columns_def)

text \<open>
  Where \<open>District\<close> and \<open>Total_Crime\<close> stand after the renaming, when no column had the
  name before.
\<close>

lemma district_positions_renamed:
  assumes P: "positions d cs = [i]" and D: "py ''District'' \<notin> set cs"
  shows "positions (py ''District'') (renamed d t cs) = (if d = t then [] else [i])"
proof -
  have nd: "cs ! k \<noteq> py ''District''" if "k < length cs" for k
    using D nth_mem [OF that] by metis
  show ?thesis
  proof (cases "d = t")
    case True
    have "positions (py ''District'') (renamed d t cs) = []"
      unfolding renamed_def
    proof (rule positions_map_empty)
      fix k assume "k < length cs"
      from nd [OF this]
      show "(if cs ! k = t then py ''Total_Crime''
             else if cs ! k = d then py ''District'' else cs ! k) \<noteq> py ''District''"
        using True names_differ by auto
    qed
    with True show ?thesis by simp
  next
    case False
    have "positions (py ''District'') (renamed d t cs) = positions d cs"
      unfolding renamed_def
    proof (rule positions_map_cong)
      fix k assume "k < length cs"
      from nd [OF this]
      show "((if cs ! k = t then py ''Total_Crime''
             else if cs ! k = d then py ''District'' else cs ! k) = py ''District'')
            = (cs ! k = d)"
        using False names_differ by auto
    qed
    with P False show ?thesis by simp
  qed
qed

lemma total_positions_renamed:
  assumes T: "py ''Total_Crime'' \<notin> set cs"
  shows "positions (py ''Total_Crime'') (renamed d t cs) = positions t cs"
  unfolding renamed_def
proof (rule positions_map_cong)
  fix k assume "k < length cs"
  then have "cs ! k \<noteq> py ''Total_Crime''" using T nth_mem by metis
  then show "((if cs ! k = t then py ''Total_Crime''
         else if cs ! k = d then py ''District'' else cs ! k) = py ''Total_Crime'')
        = (cs ! k = t)"
    using names_differ by auto
qed

subsection \<open>The labelled cells of an output row\<close>

lemma zip_labelled:
  "zip (map (\<lambda>p. a) ps1 @ map (\<lambda>p. b) ps2) (map f (ps1 @ ps2)) =
     map (\<lambda>p. (a, f p)) ps1 @ map (\<lambda>p. (b, f p)) ps2"
  by (simp add: zip_map_map zip_same_conv_map)

lemma district_values_labelled:
  "columns out = map (\<lambda>p. py ''District'') ps1 @ map (\<lambda>p. py ''Total_Crime'') ps2 \<Longrightarrow>
   district_values out (map f (ps1 @ ps2)) = map f ps1"
  using names_differ
  by (simp add: district_values_def zip_labelled filter_map comp_def del: map_append)

lemma total_values_labelled:
  "columns out = map (\<lambda>p. py ''District'') ps1 @ map (\<lambda>p. py ''Total_Crime'') ps2 \<Longrightarrow>
   total_values out (map f (ps1 @ ps2)) = map f ps2"
  using names_differ
  by (simp add: total_values_def zip_labelled filter_map comp_def del: map_append)

subsection \<open>Steps 5 and 6 on the retained rows\<close>

text \<open>
  On any frame that step 4 hands on: the coercion and the selection raise, or the total
  header names one column and the result has the columns labelled \<open>District\<close> followed by
  those labelled \<open>Total_Crime\<close>, the total column coerced, for the same rows.
\<close>

lemma coerce_rename_select:
  "(\<exists>e. bindE (coerce_total pd df1 t) (\<lambda>df2.
           select_columns (rename_columns df2 d t) [py ''District'', py ''Total_Crime'']) = Inl e) \<or>
   (\<exists>j. positions t (columns df1) = [j] \<and>
        positions (py ''District'') (renamed d t (columns df1)) \<noteq> [] \<and>
        j \<in> set (positions (py ''Total_Crime'') (renamed d t (columns df1))) \<and>
        bindE (coerce_total pd df1 t) (\<lambda>df2.
           select_columns (rename_columns df2 d t) [py ''District'', py ''Total_Crime'']) =
          Inr \<lparr>columns =
                 map (\<lambda>p. py ''District'')
                   (positions (py ''District'') (renamed d t (columns df1))) @
                 map (\<lambda>p. py ''Total_Crime'')
                   (positions (py ''Total_Crime'') (renamed d t (columns df1))),
               rows = map (\<lambda>r. map (\<lambda>p. r[j := fillna 0 (to_numeric pd (r ! j))] ! p)
                              (positions (py ''District'') (renamed d t (columns df1)) @
                               positions (py ''Total_Crime'') (renamed d t (columns df1))))
                        (rows df1)\<rparr>)"
proof (cases "\<exists>j. positions t (columns df1) = [j]")
  case False
  then have "\<exists>e. coerce_total pd df1 t = Inl e"
    by (auto simp: coerce_total_def split: list.splits)
  then show ?thesis by auto
next
  case True
  let ?cs = "columns df1"
  from True obtain j where j: "positions t ?cs = [j]" by blast
  let ?upd = "\<lambda>r. r[j := fillna 0 (to_numeric pd (r ! j))]"
  let ?df2 = "df1\<lparr>rows := map ?upd (rows df1)\<rparr>"
  have ct: "coerce_total pd df1 t = Inr ?df2"
    using j by (simp add: coerce_total_def)
  let ?rcs = "renamed d t ?cs"
  have jlt: "j < length ?cs" "?cs ! j = t"
    using j positions_iff [of j t ?cs] by simp_all
  let ?ps1 = "positions (py ''District'') ?rcs"
  let ?ps2 = "positions (py ''Total_Crime'') ?rcs"
  have jps: "j \<in> set ?ps2"
    using jlt by (simp add: positions_iff renamed_def)
  show ?thesis
  proof (cases "?ps1 = []")
    case True
    then have "select_columns (rename_columns ?df2 d t) [py ''District'', py ''Total_Crime'']
        = Inl KeyError"
      by (simp add: select_columns_def columns_rename_columns)
    then show ?thesis using ct by simp
  next
    case False
    have psn: "?ps2 \<noteq> []" using jps by auto
    have cols1: "map (\<lambda>p. ?rcs ! p) ?ps1 = map (\<lambda>p. py ''District'') ?ps1"
      by (rule map_cong) (auto simp: positions_iff)
    have cols2: "map (\<lambda>p. ?rcs ! p) ?ps2 = map (\<lambda>p. py ''Total_Crime'') ?ps2"
      by (rule map_cong) (auto simp: positions_iff)
    have "select_columns (rename_columns ?df2 d t) [py ''District'', py ''Total_Crime''] =
        Inr \<lparr>columns = map (\<lambda>p. py ''District'') ?ps1 @ map (\<lambda>p. py ''Total_Crime'') ?ps2,
             rows = map (\<lambda>r. map (\<lambda>p. r ! p) (?ps1 @ ?ps2)) (map ?upd (rows df1))\<rparr>"
      unfolding select_columns_def
      using False psn cols1 cols2
      by (simp add: Let_def columns_rename_columns rows_rename_columns)
    moreover have "map (\<lambda>r. map (\<lambda>p. r ! p) (?ps1 @ ?ps2)) (map ?upd (rows df1)) =
        map (\<lambda>r. map (\<lambda>p. ?upd r ! p) (?ps1 @ ?ps2)) (rows df1)"
      by (simp add: comp_def)
    ultimately have "bindE (coerce_total pd df1 t) (\<lambda>df2.
           select_columns (rename_columns df2 d t) [py ''District'', py ''Total_Crime'']) =
        Inr \<lparr>columns = map (\<lambda>p. py ''District'') ?ps1 @ map (\<lambda>p. py ''Total_Crime'') ?ps2,
             rows = map (\<lambda>r. map (\<lambda>p. ?upd r ! p) (?ps1 @ ?ps2)) (rows df1)\<rparr>"
      using ct by simp
    with j jps False show ?thesis by blast
  qed
qed

text \<open>
  The loader, once the district header is found and step 4 has handed on the frame \<open>df1\<close>
  of the retained rows.
\<close>

lemma load_after_filter:
  assumes R: "read_excel pd file_name = Inr df0"
      and F: "fst (find_cols (map normalize_header (columns df0)) (None, None)) = Some d"
      and S: "filter_districts pd (df0\<lparr>columns := map normalize_header (columns df0)\<rparr>) d =
                Inr df1"
  obtains (empty) "load_crime_data_for_map pd file_name = Inr empty_frame"
  | (table) t j ps1 ps2 where
      "snd (find_cols (map normalize_header (columns df0)) (None, None)) = Some t"
      "positions t (columns df1) = [j]"
      "ps1 = positions (py ''District'') (renamed d t (columns df1))"
      "ps2 = positions (py ''Total_Crime'') (renamed d t (columns df1))"
      "ps1 \<noteq> []" "j \<in> set ps2"
      "load_crime_data_for_map pd file_name =
         Inr \<lparr>columns = map (\<lambda>p. py ''District'') ps1 @ map (\<lambda>p. py ''Total_Crime'') ps2,
              rows = map (\<lambda>r. map (\<lambda>p. r[j := fillna 0 (to_numeric pd (r ! j))] ! p) (ps1 @ ps2))
                         (rows df1)\<rparr>"
proof -
  define cs where "cs = map normalize_header (columns df0)"
  define df where "df = df0\<lparr>columns := cs\<rparr>"
  let ?tc = "snd (find_cols cs (None, None))"
  have dne: "\<not> falsy (Some d)"
    using district_col_not_empty [OF F] by (simp add: falsy_def)
  have body: "load_body pd file_name =
      (if falsy ?tc then Inr empty_frame else normalize_rows pd df d (the ?tc))"
    using R F dne by (simp add: load_body_def Let_def cs_def df_def)
  show ?thesis
  proof (cases "falsy ?tc")
    case True
    with body have "load_crime_data_for_map pd file_name = Inr empty_frame"
      by (simp add: load_crime_data_for_map_def)
    then show ?thesis by (rule empty)
  next
    case False
    then obtain t where t: "?tc = Some t" by (auto simp: falsy_def)
    from S have "filter_districts pd df d = Inr df1" by (simp add: df_def cs_def)
    then have "normalize_rows pd df d t =
        bindE (coerce_total pd df1 t) (\<lambda>df2.
          select_columns (rename_columns df2 d t) [py ''District'', py ''Total_Crime''])"
      by (simp add: normalize_rows_def)
    with body False t have lb: "load_body pd file_name =
        bindE (coerce_total pd df1 t) (\<lambda>df2.
          select_columns (rename_columns df2 d t) [py ''District'', py ''Total_Crime''])"
      by simp
    from coerce_rename_select [of pd df1 t d]
    show ?thesis
    proof
      assume "\<exists>e. bindE (coerce_total pd df1 t) (\<lambda>df2.
           select_columns (rename_columns df2 d t) [py ''District'', py ''Total_Crime'']) = Inl e"
      with lb have "load_crime_data_for_map pd file_name = Inr empty_frame"
        by (auto simp: load_crime_data_for_map_def)
      then show ?thesis by (rule empty)
    next
      assume "\<exists>j. positions t (columns df1) = [j] \<and>
        positions (py ''District'') (renamed d t (columns df1)) \<noteq> [] \<and>
        j \<in> set (positions (py ''Total_Crime'') (renamed d t (columns df1))) \<and>
        bindE (coerce_total pd df1 t) (\<lambda>df2.
           select_columns (rename_columns df2 d t) [py ''District'', py ''Total_Crime'']) =
          Inr \<lparr>columns =
                 map (\<lambda>p. py ''District'')
                   (positions (py ''District'') (renamed d t (columns df1))) @
                 map (\<lambda>p. py ''Total_Crime'')
                   (positions (py ''Total_Crime'') (renamed d t (columns df1))),
               rows = map (\<lambda>r. map (\<lambda>p. r[j := fillna 0 (to_numeric pd (r ! j))] ! p)
                              (positions (py ''District'') (renamed d t (columns df1)) @
                               positions (py ''Total_Crime'') (renamed d t (columns df1))))
                        (rows df1)\<rparr>"
      then obtain j where
            a: "positions t (columns df1) = [j]"
        and b: "positions (py ''District'') (renamed d t (columns df1)) \<noteq> []"
        and c: "j \<in> set (positions (py ''Total_Crime'') (renamed d t (columns df1)))"
        and lbb: "load_body pd file_name =
          Inr \<lparr>columns =
                 map (\<lambda>p. py ''District'')
                   (positions (py ''District'') (renamed d t (columns df1))) @
                 map (\<lambda>p. py ''Total_Crime'')
                   (positions (py ''Total_Crime'') (renamed d t (columns df1))),
               rows = map (\<lambda>r. map (\<lambda>p. r[j := fillna 0 (to_numeric pd (r ! j))] ! p)
                              (positions (py ''District'') (renamed d t (columns df1)) @
                               positions (py ''Total_Crime'') (renamed d t (columns df1))))
                        (rows df1)\<rparr>"
        using lb by auto
      have l: "load_crime_data_for_map pd file_name =
          Inr \<lparr>columns =
                 map (\<lambda>p. py ''District'')
                   (positions (py ''District'') (renamed d t (columns df1))) @
                 map (\<lambda>p. py ''Total_Crime'')
                   (positions (py ''Total_Crime'') (renamed d t (columns df1))),
               rows = map (\<lambda>r. map (\<lambda>p. r[j := fillna 0 (to_numeric pd (r ! j))] ! p)
                              (positions (py ''District'') (renamed d t (columns df1)) @
                               positions (py ''Total_Crime'') (renamed d t (columns df1))))
                        (rows df1)\<rparr>"
        unfolding load_crime_data_for_map_def lbb by simp
      from t have t': "snd (find_cols (map normalize_header (columns df0)) (None, None)) = Some t"
        by (simp add: cs_def)
      show ?thesis by (rule table [OF t' a refl refl b c l])
    qed
  qed
qed

text \<open>With one column under the district header, step 4 hands on the retained rows.\<close>

lemma filter_single_district:
  "positions d (columns df) = [i] \<Longrightarrow>
   filter_districts pd df d = Inr (df\<lparr>rows := retained df i\<rparr>)"
  by (simp add: filter_districts_def retained_def)

lemma load_single_district_cases:
  assumes R: "read_excel pd file_name = Inr df0"
      and F: "fst (find_cols (map normalize_header (columns df0)) (None, None)) = Some d"
      and P: "positions d (map normalize_header (columns df0)) = [i]"
  obtains (empty) "load_crime_data_for_map pd file_name = Inr empty_frame"
  | (table) t j ps1 ps2 where
      "snd (find_cols (map normalize_header (columns df0)) (None, None)) = Some t"
      "positions t (map normalize_header (columns df0)) = [j]"
      "ps1 = positions (py ''District'') (renamed d t (map normalize_header (columns df0)))"
      "ps2 = positions (py ''Total_Crime'') (renamed d t (map normalize_header (columns df0)))"
      "ps1 \<noteq> []" "j \<in> set ps2"
      "load_crime_data_for_map pd file_name =
         Inr \<lparr>columns = map (\<lambda>p. py ''District'') ps1 @ map (\<lambda>p. py ''Total_Crime'') ps2,
              rows = map (\<lambda>r. map (\<lambda>p. r[j := fillna 0 (to_numeric pd (r ! j))] ! p) (ps1 @ ps2))
                         (retained df0 i)\<rparr>"
proof -
  let ?df = "df0\<lparr>columns := map normalize_header (columns df0)\<rparr>"
  let ?df1 = "?df\<lparr>rows := retained ?df i\<rparr>"
  from P have "positions d (columns ?df) = [i]" by simp
  from filter_single_district [OF this]
  have S: "filter_districts pd ?df d = Inr ?df1" .
  have c: "columns ?df1 = map normalize_header (columns df0)"
    and r: "rows ?df1 = retained df0 i"
    by (simp_all add: retained_def)
  from R F S show ?thesis
  proof (cases rule: load_after_filter)
    case empty
    then show ?thesis by (rule that(1))
  next
    case (table t j ps1 ps2)
    then show ?thesis unfolding c r by (rule that(2))
  qed
qed

subsection \<open>Only listed districts\<close>

text \<open>
  Claim C3 as stated fails. The sheet has a third column that is already called
  \<open>District\<close>; after the renaming two columns carry that label and the selection returns
  both, so the output row for Mitte also carries the value \<open>Zentrum\<close>, which is not a
  listed district.
\<close>

theorem colliding_header_counterexample:
  "load_crime_data_for_map (excel_with collision_sheet) CRIME_FILE_NAME = Inr collision_output \<and>
   rows collision_output = [[Text (py ''Mitte''), Text (py ''Zentrum''), Num 12345]] \<and>
   district_values collision_output [Text (py ''Mitte''), Text (py ''Zentrum''), Num 12345] =
     [Text (py ''Mitte''), Text (py ''Zentrum'')] \<and>
   \<not> isin (Text (py ''Zentrum'')) berlin_districts"
  by (simp add: loader_defs collision_sheet_def collision_output_def district_values_def)

text \<open>
  Claim C3, amended. For every sheet whose district header names exactly one column
  after normalization and in which no header is already \<open>District\<close>: every \<open>District\<close> value
  of every output row is one of the twelve listed names, and the output is the empty table
  or its \<open>District\<close> values are, row by row, the district cells of the input rows whose
  district is listed, so no other row appears.
\<close>

theorem district_values_allowed:
  assumes R: "read_excel pd file_name = Inr df0"
      and F: "fst (find_cols (map normalize_header (columns df0)) (None, None)) = Some d"
      and P: "positions d (map normalize_header (columns df0)) = [i]"
      and D: "py ''District'' \<notin> set (map normalize_header (columns df0))"
      and L: "load_crime_data_for_map pd file_name = Inr out"
  shows "(\<forall>r \<in> set (rows out). \<forall>v \<in> set (district_values out r). isin v berlin_districts) \<and>
         (out = empty_frame \<or>
          map (district_values out) (rows out) = map (\<lambda>r. [r ! i]) (retained df0 i))"
  using R F P
proof (cases rule: load_single_district_cases)
  case empty
  with L have "out = empty_frame" by simp
  then show ?thesis by (simp add: empty_frame_def)
next
  case (table t j ps1 ps2)
  let ?cs = "map normalize_header (columns df0)"
  from table(3,5) district_positions_renamed [OF P D, of t]
  have dt: "d \<noteq> t" and ps1: "ps1 = [i]" by (auto split: if_splits)
  have "?cs ! i = d" "?cs ! j = t"
    using P table(2) positions_iff [of i d ?cs] positions_iff [of j t ?cs] by simp_all
  with dt have ij: "i \<noteq> j" by auto
  from L table(7) have cols: "columns out =
      map (\<lambda>p. py ''District'') ps1 @ map (\<lambda>p. py ''Total_Crime'') ps2"
    and rws: "rows out = map (\<lambda>r. map (\<lambda>p. r[j := fillna 0 (to_numeric pd (r ! j))] ! p)
                                 (ps1 @ ps2)) (retained df0 i)"
    by auto
  have dv: "map (district_values out) (rows out) = map (\<lambda>r. [r ! i]) (retained df0 i)"
    unfolding rws map_map comp_def district_values_labelled [OF cols]
    using ps1 ij by simp
  have "\<forall>r \<in> set (retained df0 i). isin (r ! i) berlin_districts"
    by (simp add: retained_def)
  then have "\<forall>vs \<in> set (map (\<lambda>r. [r ! i]) (retained df0 i)).
      \<forall>v \<in> set vs. isin v berlin_districts"
    by simp
  then have "\<forall>vs \<in> set (map (district_values out) (rows out)).
      \<forall>v \<in> set vs. isin v berlin_districts"
    by (simp only: dv)
  then have "\<forall>r \<in> set (rows out). \<forall>v \<in> set (district_values out r). isin v berlin_districts"
    by simp
  with dv show ?thesis by blast
qed

text \<open>C3, amended, on the sheet of the scenario.\<close>

theorem district_values_allowed_witness:
  "read_excel (excel_with scenario_sheet) CRIME_FILE_NAME = Inr scenario_sheet \<and>
   fst (find_cols (map normalize_header (columns scenario_sheet)) (None, None)) =
     Some (py ''Bezeichnung (Bezirk)'') \<and>
   positions (py ''Bezeichnung (Bezirk)'') (map normalize_header (columns scenario_sheet)) = [0] \<and>
   py ''District'' \<notin> set (map normalize_header (columns scenario_sheet)) \<and>
   load_crime_data_for_map (excel_with scenario_sheet) CRIME_FILE_NAME = Inr scenario_output \<and>
   retained scenario_sheet 0 = [[Text (py ''Mitte''), Text (py ''12345'')]] \<and>
   map (district_values scenario_output) (rows scenario_output) = [[Text (py ''Mitte'')]] \<and>
   isin (Text (py ''Mitte'')) berlin_districts"
proof -
  have r: "read_excel (excel_with scenario_sheet) CRIME_FILE_NAME = Inr scenario_sheet"
    by (simp add: excel_with_def)
  note c = example_headers(1)
  have f: "fst (find_cols (map normalize_header (columns scenario_sheet)) (None, None)) =
      Some (py ''Bezeichnung (Bezirk)'')"
    by (simp only: c scenario_find_cols fst_conv)
  have p: "positions (py ''Bezeichnung (Bezirk)'')
      (map normalize_header (columns scenario_sheet)) = [0]"
    by (simp only: c scenario_positions)
  have d: "py ''District'' \<notin> set (map normalize_header (columns scenario_sheet))"
    by (simp only: c scenario_positions not_False_eq_True)
  note l = load_scenario and t = retained_examples
  have ne: "scenario_output \<noteq> empty_frame"
    by (simp add: scenario_output_def empty_frame_def)
  from district_values_allowed [OF r f p d l] ne
  have m: "map (district_values scenario_output) (rows scenario_output) =
      map (\<lambda>r. [r ! 0]) (retained scenario_sheet 0)"
    and a: "\<forall>r \<in> set (rows scenario_output).
      \<forall>v \<in> set (district_values scenario_output r). isin v berlin_districts"
    by blast+
  from m have m': "map (district_values scenario_output) (rows scenario_output) =
      [[Text (py ''Mitte'')]]"
    by (simp add: t)
  have "rows scenario_output \<noteq> []" by (simp add: scenario_output_def)
  with a m' have i: "isin (Text (py ''Mitte'')) berlin_districts"
    by (cases "rows scenario_output") auto
  show ?thesis by (intro conjI r f p d l t m' i)
qed

subsection \<open>Text that is no number\<close>

text \<open>
  Claim C4. Let the loader find both headers, and let \<open>df1\<close> be the frame that step 4
  hands on: the retained rows. Every row of the output comes from the retained row at
  the same index. If the cell of that retained row under the total-offenses header is a
  text that fails numeric coercion, then the output row carries the \<open>Total_Crime\<close> value 0,
  and that is its only \<open>Total_Crime\<close> value when no column was already called \<open>Total_Crime\<close>.
\<close>

theorem non_numeric_total_becomes_zero:
  assumes R: "read_excel pd file_name = Inr df0"
      and F: "find_cols (map normalize_header (columns df0)) (None, None) = (Some d, Some t)"
      and S: "filter_districts pd (df0\<lparr>columns := map normalize_header (columns df0)\<rparr>) d =
                Inr df1"
      and W: "wf_frame df1"
      and PT: "positions t (columns df1) = [j]"
      and L: "load_crime_data_for_map pd file_name = Inr out"
      and K: "k < length (rows out)"
      and V: "rows df1 ! k ! j = Text s"
      and N: "parse_number pd s = None"
  shows "Num 0 \<in> set (total_values out (rows out ! k)) \<and>
         (py ''Total_Crime'' \<notin> set (columns df1)
            \<longrightarrow> total_values out (rows out ! k) = [Num 0])"
proof -
  from F have F1: "fst (find_cols (map normalize_header (columns df0)) (None, None)) = Some d"
    by simp
  from R F1 S show ?thesis
  proof (cases rule: load_after_filter)
    case empty
    with L have "out = empty_frame" by simp
    with K show ?thesis by (simp add: empty_frame_def)
  next
    case (table t' j' ps1 ps2)
    from table(1) F have tt: "t' = t" by simp
    with table(2) PT have jj: "j' = j" by simp
    let ?upd = "\<lambda>r. r[j := fillna 0 (to_numeric pd (r ! j))]"
    from L table(7) jj have cols: "columns out =
        map (\<lambda>p. py ''District'') ps1 @ map (\<lambda>p. py ''Total_Crime'') ps2"
      and rws: "rows out = map (\<lambda>r. map (\<lambda>p. ?upd r ! p) (ps1 @ ps2)) (rows df1)"
      by auto
    from K rws have k: "k < length (rows df1)" by simp
    let ?r = "rows df1 ! k"
    from W nth_mem [OF k] have len: "length ?r = length (columns df1)"
      by (simp add: wf_frame_def)
    have "j < length (columns df1)" using PT positions_iff [of j t "columns df1"] by simp
    with len have jlt: "j < length ?r" by simp
    have row: "rows out ! k = map (\<lambda>p. ?upd ?r ! p) (ps1 @ ps2)"
      using k by (simp add: rws)
    have tv: "total_values out (rows out ! k) = map (\<lambda>p. ?upd ?r ! p) ps2"
      unfolding row by (rule total_values_labelled [OF cols])
    have zero: "?upd ?r ! j = Num 0"
      using jlt V N by (simp add: to_numeric_def fillna_def)
    have "Num 0 \<in> set (total_values out (rows out ! k))"
      unfolding tv using table(6) jj zero by force
    moreover have "total_values out (rows out ! k) = [Num 0]"
      if "py ''Total_Crime'' \<notin> set (columns df1)"
    proof -
      from total_positions_renamed [OF that, of d t] table(4) tt PT have "ps2 = [j]" by simp
      with tv zero show ?thesis by simp
    qed
    ultimately show ?thesis by blast
  qed
qed

text \<open>C4 on the sheet whose count for Mitte is the text \<open>n/a\<close>.\<close>

theorem non_numeric_total_becomes_zero_witness:
  "read_excel (excel_with dirty_sheet) CRIME_FILE_NAME = Inr dirty_sheet \<and>
   find_cols (map normalize_header (columns dirty_sheet)) (None, None) =
     (Some (py ''Bezeichnung (Bezirk)''), Some (py ''Straftaten -insgesamt-'')) \<and>
   filter_districts (excel_with dirty_sheet)
     (dirty_sheet\<lparr>columns := map normalize_header (columns dirty_sheet)\<rparr>)
     (py ''Bezeichnung (Bezirk)'') = Inr dirty_retained \<and>
   wf_frame dirty_retained \<and>
   positions (py ''Straftaten -insgesamt-'') (columns dirty_retained) = [1] \<and>
   load_crime_data_for_map (excel_with dirty_sheet) CRIME_FILE_NAME = Inr dirty_output \<and>
   0 < length (rows dirty_output) \<and>
   rows dirty_retained ! 0 ! 1 = Text (py ''n/a'') \<and>
   parse_number (excel_with dirty_sheet) (py ''n/a'') = None \<and>
   py ''Total_Crime'' \<notin> set (columns dirty_retained) \<and>
   total_values dirty_output (rows dirty_output ! 0) = [Num 0]"
proof -
  have r: "read_excel (excel_with dirty_sheet) CRIME_FILE_NAME = Inr dirty_sheet"
    by (simp add: excel_with_def)
  note c = example_headers(2)
  have f: "find_cols (map normalize_header (columns dirty_sheet)) (None, None) =
     (Some (py ''Bezeichnung (Bezirk)''), Some (py ''Straftaten -insgesamt-''))"
    by (simp only: c scenario_find_cols)
  have s: "filter_districts (excel_with dirty_sheet)
     (dirty_sheet\<lparr>columns := map normalize_header (columns dirty_sheet)\<rparr>)
     (py ''Bezeichnung (Bezirk)'') = Inr dirty_retained"
    unfolding c
    by (simp add: filter_districts_def scenario_positions)
       (simp add: dirty_sheet_def dirty_retained_def isin_def berlin_districts_def py_def)
  have w: "wf_frame dirty_retained" by (simp add: wf_frame_def dirty_retained_def)
  have cr: "columns dirty_retained =
      [py ''Bezeichnung (Bezirk)'', py ''Straftaten -insgesamt-'']"
    by (simp add: dirty_retained_def)
  have pt: "positions (py ''Straftaten -insgesamt-'') (columns dirty_retained) = [1]"
    by (simp only: cr scenario_positions)
  have nt: "py ''Total_Crime'' \<notin> set (columns dirty_retained)"
    by (simp only: cr scenario_positions not_False_eq_True)
  note l = load_dirty
  have k: "0 < length (rows dirty_output)" by (simp add: dirty_output_def)
  have v: "rows dirty_retained ! 0 ! 1 = Text (py ''n/a'')"
    by (simp add: dirty_retained_def)
  have n: "parse_number (excel_with dirty_sheet) (py ''n/a'') = None"
    by (simp add: excel_with_def parse_digits_examples)
  from non_numeric_total_becomes_zero [OF r f s w pt l k v n] nt
  have z: "total_values dirty_output (rows dirty_output ! 0) = [Num 0]"
    by blast
  show ?thesis by (intro conjI r f s w pt l k v n nt z)
qed

subsection \<open>The invariant of the normalized table\<close>

text \<open>
  Claim C5 as stated fails. The sheet has two rows for Mitte, with the counts -5
  and 7; both reach the output unchanged, so a \<open>Total_Crime\<close> value is negative and
  a district has two rows.
\<close>

theorem negative_duplicate_counterexample:
  "load_crime_data_for_map (excel_with negative_sheet) CRIME_FILE_NAME = Inr negative_output \<and>
   \<not> nonneg_totals negative_output \<and> \<not> one_row_per_district negative_output"
  by (simp add: loader_defs negative_sheet_def negative_output_def nonneg_totals_def
      one_row_per_district_def total_values_def district_values_def)

text \<open>
  Claim C5, amended. Take a sheet whose two headers are found, each naming exactly
  one column after normalization, with no header already \<open>District\<close> or \<open>Total_Crime\<close>. Every
  \<open>Total_Crime\<close> value of the output is a non-negative number provided every number
  that the total-offenses cell of a retained input row reads as is non-negative (a blank
  and a text that fails coercion become 0). The output has at most one row per district
  provided no two retained input rows have the same district cell.
\<close>

theorem output_invariant_from_input:
  assumes R: "read_excel pd file_name = Inr df0"
      and W: "wf_frame df0"
      and F: "find_cols (map normalize_header (columns df0)) (None, None) = (Some d, Some t)"
      and P: "positions d (map normalize_header (columns df0)) = [i]"
      and PT: "positions t (map normalize_header (columns df0)) = [j]"
      and D: "py ''District'' \<notin> set (map normalize_header (columns df0))"
      and T: "py ''Total_Crime'' \<notin> set (map normalize_header (columns df0))"
      and L: "load_crime_data_for_map pd file_name = Inr out"
  shows "((\<forall>r \<in> set (retained df0 i). \<forall>x. to_numeric pd (r ! j) = Some x \<longrightarrow> 0 \<le> x)
            \<longrightarrow> nonneg_totals out) \<and>
         (distinct (map (\<lambda>r. r ! i) (retained df0 i)) \<longrightarrow> one_row_per_district out)"
proof -
  let ?cs = "map normalize_header (columns df0)"
  from F have F1: "fst (find_cols ?cs (None, None)) = Some d" by simp
  from R F1 P show ?thesis
  proof (cases rule: load_single_district_cases)
    case empty
    with L have "out = empty_frame" by simp
    then show ?thesis
      by (simp add: empty_frame_def nonneg_totals_def one_row_per_district_def)
  next
    case (table t' j' ps1 ps2)
    from table(1) F have tt: "t' = t" by simp
    with table(2) PT have jj: "j' = j" by simp
    let ?upd = "\<lambda>r. r[j := fillna 0 (to_numeric pd (r ! j))]"
    from table(3,5) district_positions_renamed [OF P D, of t'] tt
    have dt: "d \<noteq> t" and ps1: "ps1 = [i]" by (auto split: if_splits)
    from total_positions_renamed [OF T, of d t] table(4) tt PT have ps2: "ps2 = [j]" by simp
    have "?cs ! i = d" "?cs ! j = t" and jlt: "j < length ?cs"
      using P PT positions_iff [of i d ?cs] positions_iff [of j t ?cs] by simp_all
    with dt have ij: "i \<noteq> j" by auto
    from L table(7) jj have cols: "columns out =
        map (\<lambda>p. py ''District'') ps1 @ map (\<lambda>p. py ''Total_Crime'') ps2"
      and rws: "rows out = map (\<lambda>r. map (\<lambda>p. ?upd r ! p) (ps1 @ ps2)) (retained df0 i)"
      by auto
    have len: "length r = length ?cs" if "r \<in> set (retained df0 i)" for r
      using that W by (simp add: retained_def wf_frame_def)
    have dv: "map (district_values out) (rows out) = map (\<lambda>r. [r ! i]) (retained df0 i)"
      unfolding rws map_map comp_def district_values_labelled [OF cols]
      using ps1 ij by simp
    have tv: "total_values out (map (\<lambda>p. ?upd r ! p) (ps1 @ ps2)) =
        [fillna 0 (to_numeric pd (r ! j))]" if "r \<in> set (retained df0 i)" for r
      unfolding total_values_labelled [OF cols]
      using ps2 jlt len [OF that] by simp
    have nn: "nonneg_totals out"
      if a: "\<forall>r \<in> set (retained df0 i). \<forall>x. to_numeric pd (r ! j) = Some x \<longrightarrow> 0 \<le> x"
      unfolding nonneg_totals_def rws
    proof (intro ballI)
      fix row v
      assume "row \<in> set (map (\<lambda>r. map (\<lambda>p. ?upd r ! p) (ps1 @ ps2)) (retained df0 i))"
        and v: "v \<in> set (total_values out row)"
      then obtain r where r: "r \<in> set (retained df0 i)"
        and row: "row = map (\<lambda>p. ?upd r ! p) (ps1 @ ps2)" by auto
      from v have "v = fillna 0 (to_numeric pd (r ! j))"
        unfolding row tv [OF r] by simp
      with a r show "case v of Num x \<Rightarrow> 0 \<le> x | _ \<Rightarrow> False"
        by (cases "to_numeric pd (r ! j)") (auto simp: fillna_def)
    qed
    have od: "one_row_per_district out" if "distinct (map (\<lambda>r. r ! i) (retained df0 i))"
    proof -
      have "distinct (map (\<lambda>v. [v]) (map (\<lambda>r. r ! i) (retained df0 i)))"
        using that by (simp only: distinct_map) (auto simp: inj_on_def)
      then have "distinct (map (\<lambda>r. [r ! i]) (retained df0 i))"
        by (simp add: comp_def)
      then show ?thesis
        unfolding one_row_per_district_def dv .
    qed
    from nn od show ?thesis by blast
  qed
qed

text \<open>C5, amended, on the sheet of the scenario.\<close>

theorem output_invariant_from_input_witness:
  "read_excel (excel_with scenario_sheet) CRIME_FILE_NAME = Inr scenario_sheet \<and>
   wf_frame scenario_sheet \<and>
   find_cols (map normalize_header (columns scenario_sheet)) (None, None) =
     (Some (py ''Bezeichnung (Bezirk)''), Some (py ''Straftaten -insgesamt-'')) \<and>
   positions (py ''Bezeichnung (Bezirk)'') (map normalize_header (columns scenario_sheet)) = [0] \<and>
   positions (py ''Straftaten -insgesamt-'') (map normalize_header (columns scenario_sheet)) = [1] \<and>
   py ''District'' \<notin> set (map normalize_header (columns scenario_sheet)) \<and>
   py ''Total_Crime'' \<notin> set (map normalize_header (columns scenario_sheet)) \<and>
   load_crime_data_for_map (excel_with scenario_sheet) CRIME_FILE_NAME = Inr scenario_output \<and>
   retained scenario_sheet 0 = [[Text (py ''Mitte''), Text (py ''12345'')]] \<and>
   to_numeric (excel_with scenario_sheet) (Text (py ''12345'')) = Some 12345 \<and>
   nonneg_totals scenario_output \<and>
   one_row_per_district scenario_output"
proof -
  have r: "read_excel (excel_with scenario_sheet) CRIME_FILE_NAME = Inr scenario_sheet"
    by (simp add: excel_with_def)
  have w: "wf_frame scenario_sheet" by (simp add: wf_frame_def scenario_sheet_def)
  note c = example_headers(1)
  have f: "find_cols (map normalize_header (columns scenario_sheet)) (None, None) =
     (Some (py ''Bezeichnung (Bezirk)''), Some (py ''Straftaten -insgesamt-''))"
    by (simp only: c scenario_find_cols)
  have p: "positions (py ''Bezeichnung (Bezirk)'')
      (map normalize_header (columns scenario_sheet)) = [0]"
    by (simp only: c scenario_positions)
  have pt: "positions (py ''Straftaten -insgesamt-'')
      (map normalize_header (columns scenario_sheet)) = [1]"
    by (simp only: c scenario_positions)
  have d: "py ''District'' \<notin> set (map normalize_header (columns scenario_sheet))"
    by (simp only: c scenario_positions not_False_eq_True)
  have nt: "py ''Total_Crime'' \<notin> set (map normalize_header (columns scenario_sheet))"
    by (simp only: c scenario_positions not_False_eq_True)
  note l = load_scenario and t = retained_examples
  have u: "to_numeric (excel_with scenario_sheet) (Text (py ''12345'')) = Some 12345"
    by (simp add: to_numeric_def excel_with_def parse_digits_examples)
  have a: "\<forall>r \<in> set (retained scenario_sheet 0).
      \<forall>x. to_numeric (excel_with scenario_sheet) (r ! 1) = Some x \<longrightarrow> 0 \<le> x"
    by (simp add: t u)
  have b: "distinct (map (\<lambda>r. r ! 0) (retained scenario_sheet 0))"
    by (simp add: t)
  from output_invariant_from_input [OF r w f p pt d nt l] a b
  have n: "nonneg_totals scenario_output" and o: "one_row_per_district scenario_output"
    by blast+
  show ?thesis by (intro conjI r w f p pt d nt l t u n o)
qed

subsection \<open>The gateways fall back\<close>

lemma get_exchange_rate_fallback:
  "exchange_rate_body w = Inl e \<Longrightarrow> fst (get_exchange_rate w) = Inr (PyNum 1450)"
  by (simp add: get_exchange_rate_def)

lemma exchange_rate_body_network:
  "get_json w exchange_rate_request = Inl e \<Longrightarrow> exchange_rate_body w = Inl e"
  by (simp add: exchange_rate_body_def)

lemma get_weather_fallback:
  "weather_body w = Inl e \<Longrightarrow> fst (get_weather w) = Inr weather_fallback"
  by (simp add: get_weather_def)

lemma weather_body_network:
  "get_json w weather_request = Inl e \<Longrightarrow> weather_body w = Inl e"
  by (simp add: weather_body_def)

lemma get_osm_places_fallback:
  "category_tag category = Some tag \<Longrightarrow>
   osm_places_body w (overpass_request (overpass_query w tag lat lng radius_m)) = Inl e \<Longrightarrow>
   fst (get_osm_places w category lat lng radius_m) = Inr []"
  by (simp add: get_osm_places_def Let_def)

lemma osm_places_body_network:
  "get_json w req = Inl e \<Longrightarrow> osm_places_body w req = Inl e"
  by (simp add: osm_places_body_def)

lemma search_location_fallback:
  "search_location_body w query = Inl e \<Longrightarrow>
   fst (search_location w query) = Inr (PyNone, PyNone, PyNone)"
  by (simp add: search_location_def)

lemma search_location_body_network:
  "get_json w (nominatim_request query) = Inl e \<Longrightarrow> search_location_body w query = Inl e"
  by (simp add: search_location_body_def)

lemma search_location_body_falsy:
  "get_json w (nominatim_request query) = Inr res \<Longrightarrow> \<not> truthy res \<Longrightarrow>
   search_location_body w query = Inr None"
  by (simp add: search_location_body_def)

lemma search_location_none:
  "search_location_body w query = Inl e \<or> search_location_body w query = Inr None \<Longrightarrow>
   fst (search_location w query) = Inr (PyNone, PyNone, PyNone)"
  by (auto simp: search_location_def)

lemma get_gemini_response_fallback:
  "GEMINI_API_KEY w \<noteq> [] \<Longrightarrow> generate_text w prompt = Inl e \<Longrightarrow>
   fst (get_gemini_response w prompt) = Inr ai_error_message"
  by (simp add: get_gemini_response_def)

lemma gateways_return:
  "\<exists>v. fst (get_exchange_rate w) = Inr v"
  "\<exists>v. fst (get_weather w) = Inr v"
  "\<exists>v. fst (get_osm_places w category lat lng radius_m) = Inr v"
  "\<exists>v. fst (search_location w query) = Inr v"
  "\<exists>v. fst (get_gemini_response w prompt) = Inr v"
  by (simp_all add: get_exchange_rate_def get_weather_def get_osm_places_def
      search_location_def get_gemini_response_def try_except_returns Let_def
      split: option.split sum.split)

text \<open>
  Claim C6. Each of the five gateways returns a value and raises nothing. When its
  network call fails, or anything else in its \<open>try\<close> block raises, it returns its fallback:
  1450.0 for the exchange rate, the dictionary with the temperature 15.0 and the weather
  code 0 for the weather, the empty list for the place search, the triple of \<open>None\<close> for the
  geocoder, and the fixed error message for the assistant (whose call is made when an API
  key is configured).
\<close>

theorem gateways_fall_back:
  "((\<exists>v. fst (get_exchange_rate w) = Inr v) \<and>
    (get_json w exchange_rate_request = Inl e \<or> exchange_rate_body w = Inl e
       \<longrightarrow> fst (get_exchange_rate w) = Inr (PyNum 1450))) \<and>
   ((\<exists>v. fst (get_weather w) = Inr v) \<and>
    (get_json w weather_request = Inl e \<or> weather_body w = Inl e
       \<longrightarrow> fst (get_weather w) = Inr weather_fallback)) \<and>
   ((\<exists>v. fst (get_osm_places w category lat lng radius_m) = Inr v) \<and>
    (category_tag category = Some tag \<and>
     (get_json w (overpass_request (overpass_query w tag lat lng radius_m)) = Inl e \<or>
      osm_places_body w (overpass_request (overpass_query w tag lat lng radius_m)) = Inl e)
       \<longrightarrow> fst (get_osm_places w category lat lng radius_m) = Inr [])) \<and>
   ((\<exists>v. fst (search_location w query) = Inr v) \<and>
    (get_json w (nominatim_request query) = Inl e \<or> search_location_body w query = Inl e
       \<longrightarrow> fst (search_location w query) = Inr (PyNone, PyNone, PyNone))) \<and>
   ((\<exists>v. fst (get_gemini_response w prompt) = Inr v) \<and>
    (GEMINI_API_KEY w \<noteq> [] \<and> generate_text w prompt = Inl e
       \<longrightarrow> fst (get_gemini_response w prompt) = Inr ai_error_message))"
proof -
  have a: "get_json w exchange_rate_request = Inl e \<or> exchange_rate_body w = Inl e
       \<longrightarrow> fst (get_exchange_rate w) = Inr (PyNum 1450)"
    using get_exchange_rate_fallback exchange_rate_body_network by blast
  have b: "get_json w weather_request = Inl e \<or> weather_body w = Inl e
       \<longrightarrow> fst (get_weather w) = Inr weather_fallback"
    using get_weather_fallback weather_body_network by blast
  have c: "category_tag category = Some tag \<and>
     (get_json w (overpass_request (overpass_query w tag lat lng radius_m)) = Inl e \<or>
      osm_places_body w (overpass_request (overpass_query w tag lat lng radius_m)) = Inl e)
       \<longrightarrow> fst (get_osm_places w category lat lng radius_m) = Inr []"
    using get_osm_places_fallback osm_places_body_network by blast
  have d: "get_json w (nominatim_request query) = Inl e \<or> search_location_body w query = Inl e
       \<longrightarrow> fst (search_location w query) = Inr (PyNone, PyNone, PyNone)"
    using search_location_fallback search_location_body_network by blast
  have f: "GEMINI_API_KEY w \<noteq> [] \<and> generate_text w prompt = Inl e
       \<longrightarrow> fst (get_gemini_response w prompt) = Inr ai_error_message"
    using get_gemini_response_fallback by blast
  show ?thesis
    by (intro conjI gateways_return a b c d f)
qed

text \<open>
  C6 in the world where every call fails, and in the world where every answer decodes to
  a list without the expected keys.
\<close>

theorem gateways_fall_back_witness:
  "get_json offline exchange_rate_request = Inl OtherError \<and>
   fst (get_exchange_rate offline) = Inr (PyNum 1450) \<and>
   fst (get_weather offline) = Inr weather_fallback \<and>
   category_tag (py ''hotel'') = Some hotel_tag \<and>
   fst (get_osm_places offline (py ''hotel'') (PyNum 52.52) (PyNum 13.405) (PyNum 3000)) = Inr [] \<and>
   fst (search_location offline (py ''Kreuzberg Berlin'')) = Inr (PyNone, PyNone, PyNone) \<and>
   GEMINI_API_KEY offline \<noteq> [] \<and>
   generate_text offline (py ''Hallo'') = Inl OtherError \<and>
   fst (get_gemini_response offline (py ''Hallo'')) = Inr ai_error_message \<and>
   exchange_rate_body garbled = Inl TypeError \<and>
   fst (get_exchange_rate garbled) = Inr (PyNum 1450) \<and>
   weather_body garbled = Inl TypeError \<and>
   fst (get_weather garbled) = Inr weather_fallback \<and>
   osm_places_body garbled
     (overpass_request (overpass_query garbled hotel_tag (PyNum 52.52) (PyNum 13.405) (PyNum 3000)))
     = Inl TypeError \<and>
   fst (get_osm_places garbled (py ''hotel'') (PyNum 52.52) (PyNum 13.405) (PyNum 3000)) = Inr [] \<and>
   search_location_body garbled (py ''Kreuzberg Berlin'') = Inl TypeError \<and>
   fst (search_location garbled (py ''Kreuzberg Berlin'')) = Inr (PyNone, PyNone, PyNone)"
proof -
  have n: "get_json offline req = Inl OtherError" for req
    by (simp add: offline_def)
  have g: "generate_text offline (py ''Hallo'') = Inl OtherError"
    and k: "GEMINI_API_KEY offline \<noteq> []"
    by (simp_all add: offline_def py_def)
  have t: "category_tag (py ''hotel'') = Some hotel_tag"
    by (simp add: category_tag_def py_def)
  have b: "exchange_rate_body garbled = Inl TypeError"
    "weather_body garbled = Inl TypeError"
    "osm_places_body garbled req = Inl TypeError"
    "search_location_body garbled query = Inl TypeError" for req query
    by (simp_all add: exchange_rate_body_def weather_body_def osm_places_body_def
        search_location_body_def garbled_def)
  from gateways_fall_back [of offline OtherError "py ''hotel''" "PyNum 52.52" "PyNum 13.405"
      "PyNum 3000" hotel_tag "py ''Kreuzberg Berlin''" "py ''Hallo''"] n g k t
  have 1: "fst (get_exchange_rate offline) = Inr (PyNum 1450)"
    "fst (get_weather offline) = Inr weather_fallback"
    "fst (get_osm_places offline (py ''hotel'') (PyNum 52.52) (PyNum 13.405) (PyNum 3000)) = Inr []"
    "fst (search_location offline (py ''Kreuzberg Berlin'')) = Inr (PyNone, PyNone, PyNone)"
    "fst (get_gemini_response offline (py ''Hallo'')) = Inr ai_error_message"
    by simp_all
  from gateways_fall_back [of garbled TypeError "py ''hotel''" "PyNum 52.52" "PyNum 13.405"
      "PyNum 3000" hotel_tag "py ''Kreuzberg Berlin''" "py ''Hallo''"] b t
  have 2: "fst (get_exchange_rate garbled) = Inr (PyNum 1450)"
    "fst (get_weather garbled) = Inr weather_fallback"
    "fst (get_osm_places garbled (py ''hotel'') (PyNum 52.52) (PyNum 13.405) (PyNum 3000)) = Inr []"
    "fst (search_location garbled (py ''Kreuzberg Berlin'')) = Inr (PyNone, PyNone, PyNone)"
    by simp_all
  show ?thesis by (intro conjI n g k t 1 2 b)
qed

subsection \<open>Unknown categories\<close>

text \<open>
  Claim C10. For every category other than \<open>restaurant\<close>, \<open>hotel\<close> and \<open>tourism\<close>, and any
  coordinates and radius, the place search returns the empty list and issues no call.
\<close>

theorem unknown_category_no_request:
  "category \<notin> {py ''restaurant'', py ''hotel'', py ''tourism''} \<Longrightarrow>
   get_osm_places w category lat lng radius_m = (Inr [], [])"
  by (simp add: get_osm_places_def category_tag_def)

text \<open>C10 for the category \<open>cafe\<close>.\<close>

theorem unknown_category_no_request_witness:
  "py ''cafe'' \<noteq> py ''restaurant'' \<and> py ''cafe'' \<noteq> py ''hotel'' \<and>
   py ''cafe'' \<noteq> py ''tourism'' \<and>
   get_osm_places offline (py ''cafe'') (PyNum 52.52) (PyNum 13.405) (PyNum 3000) = (Inr [], [])"
proof -
  have n: "py ''cafe'' \<noteq> py ''restaurant''" "py ''cafe'' \<noteq> py ''hotel''"
    "py ''cafe'' \<noteq> py ''tourism''"
    by (simp_all add: py_def)
  then have "py ''cafe'' \<notin> {py ''restaurant'', py ''hotel'', py ''tourism''}" by simp
  from unknown_category_no_request [OF this] n show ?thesis by simp
qed

subsection \<open>The sidebar search\<close>

lemma search_berlin:
  "search_location berlin_web (py ''    Berlin'') =
     (Inr (PyNum 52.5, PyNum 13.4, PyStr (py ''Berlin, Deutschland'')),
      [HttpGet (nominatim_request (py ''    Berlin''))])"
proof -
  have k: "py ''lon'' \<noteq> py ''lat''" "py ''display_name'' \<noteq> py ''lat''"
     "py ''display_name'' \<noteq> py ''lon''" "py ''13.4'' \<noteq> py ''52.5''"
    by (simp_all add: py_def)
  have "search_location_body berlin_web (py ''    Berlin'') =
      Inr (Some (PyNum 52.5, PyNum 13.4, PyStr (py ''Berlin, Deutschland'')))"
    using k by (simp add: search_location_body_def berlin_web_def berlin_answer_def)
  then show ?thesis by (simp add: search_location_def)
qed

text \<open>
  Claim C7 as stated fails. The query of three spaces is whitespace only, yet it is not
  empty, so the handler searches for it followed by \<open>Berlin\<close>. In a world whose geocoder
  answers that search with one result, the geocoder's triple is not the triple of \<open>None\<close>,
  and the map center and the search marker change.
\<close>

theorem whitespace_query_counterexample:
  "strip (py ''   '') = [] \<and>
   fst (search_location berlin_web (py ''   '' @ py '' Berlin''))
     \<noteq> Inr (PyNone, PyNone, PyNone) \<and>
   map_center (fst (sidebar_search berlin_web (py ''   '') initial_session))
     \<noteq> map_center initial_session \<and>
   search_marker (fst (sidebar_search berlin_web (py ''   '') initial_session))
     \<noteq> search_marker initial_session"
proof -
  have q: "py ''   '' @ py '' Berlin'' = py ''    Berlin''" "py ''   '' \<noteq> []"
    by (simp_all add: py_def)
  have s: "strip (py ''   '') = []"
    by (simp add: strip_def py_def isspace_def)
  show ?thesis
    unfolding sidebar_search_def q search_berlin
    using q(2) by (simp add: s initial_session_def)
qed

text \<open>
  Claim C7, amended. For the empty query the handler issues no call and leaves the
  session as it is. For any query, whitespace-only ones included, the geocoder returns
  the triple of \<open>None\<close> whenever its request fails, is answered by a falsy value such as the
  empty list, or its \<open>try\<close> block raises; and whenever the geocoder returns that triple for
  the query followed by \<open>Berlin\<close>, the handler leaves the session, and with it the map center
  and the search marker, as it is.
\<close>

theorem empty_query_no_search:
  "sidebar_search w [] s = (s, []) \<and>
   ((get_json w (nominatim_request query) = Inl e \<or>
     (\<exists>res. get_json w (nominatim_request query) = Inr res \<and> \<not> truthy res) \<or>
     search_location_body w query = Inl e)
      \<longrightarrow> fst (search_location w query) = Inr (PyNone, PyNone, PyNone)) \<and>
   (fst (search_location w (q @ py '' Berlin'')) = Inr (PyNone, PyNone, PyNone)
      \<longrightarrow> fst (sidebar_search w q s) = s)"
proof (intro conjI impI)
  show "sidebar_search w [] s = (s, [])" by (simp add: sidebar_search_def)
next
  assume "get_json w (nominatim_request query) = Inl e \<or>
     (\<exists>res. get_json w (nominatim_request query) = Inr res \<and> \<not> truthy res) \<or>
     search_location_body w query = Inl e"
  then have "search_location_body w query = Inl e \<or> search_location_body w query = Inr None"
    using search_location_body_network search_location_body_falsy by blast
  then show "fst (search_location w query) = Inr (PyNone, PyNone, PyNone)"
    by (rule search_location_none)
next
  assume "fst (search_location w (q @ py '' Berlin'')) = Inr (PyNone, PyNone, PyNone)"
  then show "fst (sidebar_search w q s) = s"
    by (cases "search_location w (q @ py '' Berlin'')")
       (auto simp: sidebar_search_def)
qed

text \<open>C7, amended, in the world where every call fails.\<close>

theorem empty_query_no_search_witness:
  "sidebar_search offline [] initial_session = (initial_session, []) \<and>
   get_json offline (nominatim_request (py ''   Berlin'')) = Inl OtherError \<and>
   fst (search_location offline (py ''   Berlin'')) = Inr (PyNone, PyNone, PyNone) \<and>
   py ''  '' @ py '' Berlin'' = py ''   Berlin'' \<and>
   fst (sidebar_search offline (py ''  '') initial_session) = initial_session"
proof -
  have n: "get_json offline (nominatim_request (py ''   Berlin'')) = Inl OtherError"
    by (simp add: offline_def)
  have q: "py ''  '' @ py '' Berlin'' = py ''   Berlin''" by (simp add: py_def)
  from empty_query_no_search [of offline initial_session "py ''   Berlin''" OtherError "py ''  ''"]
    n q
  show ?thesis by simp
qed

subsection \<open>Recommendations and replies\<close>

lemma separate_replies_initial: "separate_replies initial_session"
  by (simp add: separate_replies_def initial_session_def)

lemma separate_replies_sidebar_search:
  "separate_replies s \<Longrightarrow> separate_replies (fst (sidebar_search w q s))"
  by (auto simp: separate_replies_def sidebar_search_def split: prod.splits sum.splits)

lemma separate_replies_submit:
  "separate_replies s \<Longrightarrow> separate_replies (submit_recommendation name description s)"
  by (auto simp: separate_replies_def submit_recommendation_def less_Suc_eq)

lemma separate_replies_append_reply:
  "separate_replies s \<Longrightarrow> separate_replies (append_reply i r_text s)"
  by (auto simp: separate_replies_def append_reply_def Let_def)

lemma separate_replies_chat:
  "separate_replies s \<Longrightarrow> separate_replies (fst (chat w prompt s))"
  by (auto simp: separate_replies_def chat_def split: prod.splits sum.splits)

text \<open>In every state a session reaches, the recommendations have reply lists of their own.\<close>

lemma reachable_separate_replies: "s \<in> reachable w \<Longrightarrow> separate_replies s"
  by (induction rule: reachable.induct)
    (simp_all add: separate_replies_initial separate_replies_sidebar_search
      separate_replies_submit separate_replies_append_reply separate_replies_chat)

lemma one_recommendation_list:
  "recommendation_list one_recommendation =
     [\<lparr>place = py ''Alexanderplatz'', desc = py ''Great views'', replies = []\<rparr>]"
  by (simp add: one_recommendation_def recommendation_list_def submit_recommendation_def
      initial_session_def content_def)

text \<open>
  Claim C8. In every state of a session, submitting the place \<open>Alexanderplatz\<close> with the
  reason \<open>Great views\<close> makes the recommendation with these two strings and no replies the
  first of the list, followed by the recommendations that were there, unchanged.
\<close>

theorem submit_prepends:
  assumes "s \<in> reachable w"
  shows "recommendation_list
           (submit_recommendation (py ''Alexanderplatz'') (py ''Great views'') s) =
         \<lparr>place = py ''Alexanderplatz'', desc = py ''Great views'', replies = []\<rparr>
         # recommendation_list s"
proof -
  from assms have "\<forall>r \<in> set (recommendations s). r_replies r \<noteq> next_address s"
    using reachable_separate_replies [of s w] by (auto simp: separate_replies_def)
  then show ?thesis
    by (simp add: recommendation_list_def submit_recommendation_def content_def)
qed

text \<open>C8 in the state with one recommendation.\<close>

theorem submit_prepends_witness:
  "one_recommendation \<in> reachable offline \<and>
   recommendation_list
     (submit_recommendation (py ''Alexanderplatz'') (py ''Great views'') one_recommendation) =
   [\<lparr>place = py ''Alexanderplatz'', desc = py ''Great views'', replies = []\<rparr>,
    \<lparr>place = py ''Alexanderplatz'', desc = py ''Great views'', replies = []\<rparr>]"
proof -
  have r: "one_recommendation \<in> reachable offline"
    unfolding one_recommendation_def by (intro reachable.submit reachable.init)
  from submit_prepends [OF r] r show ?thesis
    by (simp add: one_recommendation_list)
qed

text \<open>
  Claim C9. In every state of a session, for a recommendation of the list that has no
  replies, appending the reply \<open>Agreed!\<close> to it makes its replies the list with that one
  reply, keeps its place and its reason, and changes no other recommendation of the list.
\<close>

theorem reply_appends:
  assumes "s \<in> reachable w"
      and "i < length (recommendation_list s)"
      and "replies (recommendation_list s ! i) = []"
  shows "recommendation_list (append_reply i (py ''Agreed!'') s) =
           (recommendation_list s)
             [i := (recommendation_list s ! i)\<lparr>replies := [py ''Agreed!'']\<rparr>]"
proof -
  let ?rs = "recommendations s"
  let ?new = "recommendation_list (append_reply i (py ''Agreed!'') s)"
  let ?old = "(recommendation_list s)[i := (recommendation_list s ! i)\<lparr>replies := [py ''Agreed!'']\<rparr>]"
  from assms(2) have i: "i < length ?rs" by (simp add: recommendation_list_def)
  from assms(1) have d: "distinct (map r_replies ?rs)"
    using reachable_separate_replies [of s w] by (simp add: separate_replies_def)
  have other: "r_replies (?rs ! j) \<noteq> r_replies (?rs ! i)" if "j < length ?rs" "j \<noteq> i" for j
    using d i that by (simp add: distinct_conv_nth)
  show ?thesis
  proof (rule nth_equalityI)
    show "length ?new = length ?old"
      using i by (simp add: recommendation_list_def append_reply_def Let_def)
  next
    fix j assume "j < length ?new"
    then have j: "j < length ?rs"
      using i by (simp add: recommendation_list_def append_reply_def Let_def)
    show "?new ! j = ?old ! j"
    proof (cases "j = i")
      case True
      with i assms(3) show ?thesis
        by (simp add: recommendation_list_def append_reply_def Let_def content_def)
    next
      case False
      with i j other [of j] show ?thesis
        by (simp add: recommendation_list_def append_reply_def Let_def content_def)
    qed
  qed
qed

text \<open>C9 in the state with one recommendation.\<close>

theorem reply_appends_witness:
  "one_recommendation \<in> reachable offline \<and>
   0 < length (recommendation_list one_recommendation) \<and>
   replies (recommendation_list one_recommendation ! 0) = [] \<and>
   recommendation_list (append_reply 0 (py ''Agreed!'') one_recommendation) =
     [\<lparr>place = py ''Alexanderplatz'', desc = py ''Great views'', replies = [py ''Agreed!'']\<rparr>]"
proof -
  have r: "one_recommendation \<in> reachable offline"
    unfolding one_recommendation_def by (intro reachable.submit reachable.init)
  note l = one_recommendation_list
  from reply_appends [of one_recommendation offline 0] r l show ?thesis by simp
qed

end
